theory Spec2Isabelle
  imports Main "HOL-Library.Sublist"
begin

unbundle bit_operations_syntax

text \<open>
  Package \<^verbatim>\<open>certs\<close> of the butane operator provisions the TLS material of the
  admission webhook server: \<^verbatim>\<open>Ensure\<close> looks up the Secret holding the authority
  certificate, the leaf certificate and the leaf key, regenerates them when the leaf is
  missing, malformed or close to expiry, writes leaf and key to disk, and injects the
  authority certificate into the webhook configurations.  The functions of the package
  are embedded as HOL functions over an explicit state of the cluster and the file
  system; the Kubernetes client, the file system, the clock and the cryptographic
  library are an environment the functions are parameterised by.
\<close>

section \<open>Go values used by package certs\<close>

text \<open>
  A byte slice is a list of bytes (a nil slice and an empty slice are both the empty
  list: the code only ever takes their length or copies them).  An instant is a number
  of nanoseconds; a \<^verbatim>\<open>time.Duration\<close> is an int64 number of nanoseconds.
\<close>

type_synonym bytes = string
type_synonym time = int
type_synonym duration = int

definition minDuration :: duration where
  "minDuration = - (2 ^ 63)"

definition maxDuration :: duration where
  "maxDuration = 2 ^ 63 - 1"

text \<open>
  \<^verbatim>\<open>t.Sub(u)\<close> is the difference of two instants, saturated at the bounds of
  int64; \<^verbatim>\<open>time.Until(t)\<close> is \<^verbatim>\<open>t.Sub(time.Now())\<close>.  The reading of the
  clock is the argument \<open>now\<close>.
\<close>

definition time_Sub :: "time \<Rightarrow> time \<Rightarrow> duration" where
  "time_Sub t u =
     (let d = t - u
      in if d < minDuration then minDuration
         else if maxDuration < d then maxDuration
         else d)"

definition time_Until :: "time \<Rightarrow> time \<Rightarrow> duration" where
  "time_Until now t = time_Sub t now"

text \<open>
  Errors.  A Kubernetes API error carries a status reason; \<^verbatim>\<open>fmt.Errorf("...: %w", err)\<close>
  wraps an error behind a message; an index out of range is a run-time panic.
\<close>

datatype metav1_StatusReason =
    StatusReasonNotFound
  | StatusReasonAlreadyExists
  | StatusReasonConflict
  | StatusReasonUnknown

datatype go_error =
    StatusError metav1_StatusReason
  | PlainError string
  | Wrapped string go_error
  | RuntimePanic string

text \<open>\<^verbatim>\<open>apierrors.IsNotFound\<close> looks through wrapped errors for a status error.\<close>

fun IsNotFound :: "go_error \<Rightarrow> bool" where
  "IsNotFound (StatusError r) = (r = StatusReasonNotFound)"
| "IsNotFound (Wrapped msg e) = IsNotFound e"
| "IsNotFound (PlainError msg) = False"
| "IsNotFound (RuntimePanic msg) = False"

text \<open>
  \<^verbatim>\<open>fmt.Sprintf\<close>, for the one verb the package uses with it, \<^verbatim>\<open>%s\<close> on string
  operands.  (The \<^verbatim>\<open>%w\<close> of \<^verbatim>\<open>fmt.Errorf\<close> is the constructor \<open>Wrapped\<close>.)
\<close>

fun Sprintf :: "string \<Rightarrow> string list \<Rightarrow> string" where
  "Sprintf [] args = []"
| "Sprintf [c] args = [c]"
| "Sprintf (c # d # fmt) args =
     (if c = CHR ''%'' \<and> d = CHR ''s'' then
        (case args of
           [] \<Rightarrow> ''%!s(MISSING)'' @ Sprintf fmt []
         | a # rest \<Rightarrow> a @ Sprintf fmt rest)
      else c # Sprintf (d # fmt) args)"

subsection \<open>crypto/x509, crypto/rsa, encoding/pem\<close>

record pkix_Name =
  CommonName :: string
  Organization :: "string list"

datatype x509_ExtKeyUsage =
    ExtKeyUsageAny
  | ExtKeyUsageServerAuth
  | ExtKeyUsageClientAuth
  | ExtKeyUsageCodeSigning

text \<open>\<^verbatim>\<open>x509.KeyUsage\<close> is a bit mask; the constants are \<^verbatim>\<open>1 << iota\<close>.\<close>

definition KeyUsageDigitalSignature :: int where
  "KeyUsageDigitalSignature = push_bit 0 1"

definition KeyUsageKeyEncipherment :: int where
  "KeyUsageKeyEncipherment = push_bit 2 1"

definition KeyUsageCertSign :: int where
  "KeyUsageCertSign = push_bit 5 1"

definition KeyUsageCRLSign :: int where
  "KeyUsageCRLSign = push_bit 6 1"

record x509_Certificate =
  SerialNumber :: int
  Subject :: pkix_Name
  DNSNames :: "string list"
  NotBefore :: time
  NotAfter :: time
  KeyUsage :: int
  ExtKeyUsage :: "x509_ExtKeyUsage list"
  BasicConstraintsValid :: bool
  IsCA :: bool

record pem_Block =
  blockType :: string
  blockHeaders :: "(string \<times> string) list"
  blockBytes :: bytes

record rsa_PublicKey =
  modulus :: int
  exponent :: int

record rsa_PrivateKey =
  PublicKey :: rsa_PublicKey
  privateExponent :: int

subsection \<open>Kubernetes objects\<close>

record metav1_ObjectMeta =
  Name :: string
  metaNamespace :: string
  ResourceVersion :: string

record corev1_Secret = metav1_ObjectMeta +
  secretType :: string
  Data :: "string \<rightharpoonup> bytes"

record WebhookClientConfig =
  CABundle :: bytes

record Webhook =
  webhookName :: string
  ClientConfig :: WebhookClientConfig

text \<open>
  \<^verbatim>\<open>ValidatingWebhookConfiguration\<close> and \<^verbatim>\<open>MutatingWebhookConfiguration\<close> have the
  same shape as far as the package reads and writes them.
\<close>

record WebhookConfiguration = metav1_ObjectMeta +
  Webhooks :: "Webhook list"

text \<open>Indexing a \<^verbatim>\<open>map[string][]byte\<close> at a missing key gives the nil slice.\<close>

definition index_Data :: "(string \<rightharpoonup> bytes) \<Rightarrow> string \<Rightarrow> bytes" where
  "index_Data m k = (case m k of None \<Rightarrow> [] | Some b \<Rightarrow> b)"

section \<open>The environment of one run\<close>

text \<open>
  Everything the package calls and does not define.  The standard-library functions
  are fields of the environment; those that read \<^verbatim>\<open>rand.Reader\<close>, and the clock, are
  indexed by the number of effects performed so far, so that two calls need not agree;
  \<open>fault\<close> says whether the effect attempted at that index fails, and with what error.
\<close>

datatype call =
    GetSecret string string
  | CreateSecret string corev1_Secret
  | UpdateSecret string corev1_Secret
  | GetValidatingWebhookConfiguration string
  | UpdateValidatingWebhookConfiguration WebhookConfiguration
  | GetMutatingWebhookConfiguration string
  | UpdateMutatingWebhookConfiguration WebhookConfiguration
  | MkdirAll string nat
  | WriteFile string bytes nat
  | RsaGenerateKey nat
  | RandInt int
  | X509CreateCertificate x509_Certificate x509_Certificate rsa_PublicKey rsa_PrivateKey

record env =
  fault :: "nat \<Rightarrow> call \<Rightarrow> go_error option"
  clock :: "nat \<Rightarrow> time"
  rsa_GenerateKey :: "nat \<Rightarrow> nat \<Rightarrow> go_error + rsa_PrivateKey"
  rand_Int :: "nat \<Rightarrow> int \<Rightarrow> go_error + int"
  x509_CreateCertificate ::
    "nat \<Rightarrow> x509_Certificate \<Rightarrow> x509_Certificate \<Rightarrow> rsa_PublicKey \<Rightarrow> rsa_PrivateKey
       \<Rightarrow> go_error + bytes"
  x509_ParseCertificate :: "bytes \<Rightarrow> go_error + x509_Certificate"
  x509_MarshalPKCS1PrivateKey :: "rsa_PrivateKey \<Rightarrow> bytes"
  pem_Decode :: "bytes \<Rightarrow> pem_Block option"
  pem_EncodeToMemory :: "pem_Block \<Rightarrow> bytes"
  filepath_Join :: "string \<Rightarrow> string \<Rightarrow> string"

section \<open>Pure functions of the package\<close>

definition dnsNamesForService :: "string \<Rightarrow> string \<Rightarrow> string list" where
  "dnsNamesForService serviceName namespace =
     [Sprintf ''%s.%s.svc'' [serviceName, namespace],
      Sprintf ''%s.%s.svc.cluster.local'' [serviceName, namespace]]"

definition old :: string where
  "old = ''validating''"

definition new :: string where
  "new = ''mutating''"

text \<open>
  The loop of \<^verbatim>\<open>mutatingWebhookName\<close>, from index \<open>i\<close> on.  The bound
  \<^verbatim>\<open>len(validatingName)-len(old)\<close> is a signed int and may be negative.
\<close>

function mutatingWebhookName_loop :: "string \<Rightarrow> nat \<Rightarrow> string" where
  "mutatingWebhookName_loop validatingName i =
     (if int i \<le> int (length validatingName) - int (length old) then
        (if take (length old) (drop i validatingName) = old
         then take i validatingName @ new @ drop (i + length old) validatingName
         else mutatingWebhookName_loop validatingName (Suc i))
      else validatingName)"
  by pat_completeness auto
termination
  by (relation "measure (\<lambda>(validatingName, i). Suc (length validatingName) - i)") auto

definition mutatingWebhookName :: "string \<Rightarrow> string" where
  "mutatingWebhookName validatingName = mutatingWebhookName_loop validatingName 0"

text \<open>
  \<^verbatim>\<open>needsRenewal\<close>; \<open>now\<close> is the reading of the clock inside \<^verbatim>\<open>time.Until\<close>.
\<close>

definition needsRenewal :: "env \<Rightarrow> time \<Rightarrow> corev1_Secret \<Rightarrow> duration \<Rightarrow> bool" where
  "needsRenewal e now secret threshold =
     (case Data secret ''tls.crt'' of
        None \<Rightarrow> True
      | Some certPEM \<Rightarrow>
          if length certPEM = 0 then True
          else
            (case pem_Decode e certPEM of
               None \<Rightarrow> True
             | Some block \<Rightarrow>
                 (case x509_ParseCertificate e (blockBytes block) of
                    Inl err \<Rightarrow> True
                  | Inr cert \<Rightarrow>
                      (let remaining = time_Until now (NotAfter cert)
                       in remaining < threshold))))"


section \<open>The cluster, the file system and the effects on them\<close>

text \<open>
  The state of the world outside the process: the Secrets of the cluster by namespace
  and name, the two kinds of webhook configuration by name, the directories and files
  of the local file system, and the trace of the effects performed so far, oldest first.
\<close>

record world =
  secrets :: "(string \<times> string) \<rightharpoonup> corev1_Secret"
  validatingWebhookConfigurations :: "string \<rightharpoonup> WebhookConfiguration"
  mutatingWebhookConfigurations :: "string \<rightharpoonup> WebhookConfiguration"
  dirs :: "string \<rightharpoonup> nat"
  files :: "string \<rightharpoonup> bytes"
  trace :: "call list"

text \<open>Performing an effect records it and asks the environment whether it fails.\<close>

definition attempt :: "env \<Rightarrow> call \<Rightarrow> world \<Rightarrow> go_error option \<times> world" where
  "attempt e c w = (fault e (length (trace w)) c, w\<lparr>trace := trace w @ [c]\<rparr>)"

definition time_Now :: "env \<Rightarrow> world \<Rightarrow> time" where
  "time_Now e w = clock e (length (trace w))"

text \<open>
  An update carrying a version token other than the stored one is a conflict; an
  update of an object that is not there is not found.
\<close>

definition stale :: "'a metav1_ObjectMeta_scheme \<Rightarrow> 'b metav1_ObjectMeta_scheme \<Rightarrow> bool" where
  "stale sent stored \<longleftrightarrow> ResourceVersion sent \<noteq> [] \<and> ResourceVersion sent \<noteq> ResourceVersion stored"

definition Secrets_Get ::
  "env \<Rightarrow> string \<Rightarrow> string \<Rightarrow> world \<Rightarrow> (go_error + corev1_Secret) \<times> world" where
  "Secrets_Get e namespace name w =
     (case attempt e (GetSecret namespace name) w of
        (Some err, w') \<Rightarrow> (Inl err, w')
      | (None, w') \<Rightarrow>
          (case secrets w' (namespace, name) of
             None \<Rightarrow> (Inl (StatusError StatusReasonNotFound), w')
           | Some s \<Rightarrow> (Inr s, w')))"

definition Secrets_Create ::
  "env \<Rightarrow> string \<Rightarrow> corev1_Secret \<Rightarrow> world \<Rightarrow> go_error option \<times> world" where
  "Secrets_Create e namespace secret w =
     (case attempt e (CreateSecret namespace secret) w of
        (Some err, w') \<Rightarrow> (Some err, w')
      | (None, w') \<Rightarrow>
          (case secrets w' (namespace, Name secret) of
             Some s \<Rightarrow> (Some (StatusError StatusReasonAlreadyExists), w')
           | None \<Rightarrow> (None, w'\<lparr>secrets := (secrets w')((namespace, Name secret) \<mapsto> secret)\<rparr>)))"

definition Secrets_Update ::
  "env \<Rightarrow> string \<Rightarrow> corev1_Secret \<Rightarrow> world \<Rightarrow> go_error option \<times> world" where
  "Secrets_Update e namespace secret w =
     (case attempt e (UpdateSecret namespace secret) w of
        (Some err, w') \<Rightarrow> (Some err, w')
      | (None, w') \<Rightarrow>
          (case secrets w' (namespace, Name secret) of
             None \<Rightarrow> (Some (StatusError StatusReasonNotFound), w')
           | Some s \<Rightarrow>
               if stale secret s then (Some (StatusError StatusReasonConflict), w')
               else (None, w'\<lparr>secrets := (secrets w')((namespace, Name secret) \<mapsto> secret)\<rparr>)))"

definition ValidatingWebhookConfigurations_Get ::
  "env \<Rightarrow> string \<Rightarrow> world \<Rightarrow> (go_error + WebhookConfiguration) \<times> world" where
  "ValidatingWebhookConfigurations_Get e name w =
     (case attempt e (GetValidatingWebhookConfiguration name) w of
        (Some err, w') \<Rightarrow> (Inl err, w')
      | (None, w') \<Rightarrow>
          (case validatingWebhookConfigurations w' name of
             None \<Rightarrow> (Inl (StatusError StatusReasonNotFound), w')
           | Some c \<Rightarrow> (Inr c, w')))"

definition ValidatingWebhookConfigurations_Update ::
  "env \<Rightarrow> WebhookConfiguration \<Rightarrow> world \<Rightarrow> go_error option \<times> world" where
  "ValidatingWebhookConfigurations_Update e vwc w =
     (case attempt e (UpdateValidatingWebhookConfiguration vwc) w of
        (Some err, w') \<Rightarrow> (Some err, w')
      | (None, w') \<Rightarrow>
          (case validatingWebhookConfigurations w' (Name vwc) of
             None \<Rightarrow> (Some (StatusError StatusReasonNotFound), w')
           | Some c \<Rightarrow>
               if stale vwc c then (Some (StatusError StatusReasonConflict), w')
               else (None, w'\<lparr>validatingWebhookConfigurations :=
                                 (validatingWebhookConfigurations w')(Name vwc \<mapsto> vwc)\<rparr>)))"

definition MutatingWebhookConfigurations_Get ::
  "env \<Rightarrow> string \<Rightarrow> world \<Rightarrow> (go_error + WebhookConfiguration) \<times> world" where
  "MutatingWebhookConfigurations_Get e name w =
     (case attempt e (GetMutatingWebhookConfiguration name) w of
        (Some err, w') \<Rightarrow> (Inl err, w')
      | (None, w') \<Rightarrow>
          (case mutatingWebhookConfigurations w' name of
             None \<Rightarrow> (Inl (StatusError StatusReasonNotFound), w')
           | Some c \<Rightarrow> (Inr c, w')))"

definition MutatingWebhookConfigurations_Update ::
  "env \<Rightarrow> WebhookConfiguration \<Rightarrow> world \<Rightarrow> go_error option \<times> world" where
  "MutatingWebhookConfigurations_Update e mwc w =
     (case attempt e (UpdateMutatingWebhookConfiguration mwc) w of
        (Some err, w') \<Rightarrow> (Some err, w')
      | (None, w') \<Rightarrow>
          (case mutatingWebhookConfigurations w' (Name mwc) of
             None \<Rightarrow> (Some (StatusError StatusReasonNotFound), w')
           | Some c \<Rightarrow>
               if stale mwc c then (Some (StatusError StatusReasonConflict), w')
               else (None, w'\<lparr>mutatingWebhookConfigurations :=
                                 (mutatingWebhookConfigurations w')(Name mwc \<mapsto> mwc)\<rparr>)))"

text \<open>\<^verbatim>\<open>os.MkdirAll\<close> leaves an existing directory as it is; \<^verbatim>\<open>os.WriteFile\<close> replaces the content.\<close>

definition os_MkdirAll :: "env \<Rightarrow> string \<Rightarrow> nat \<Rightarrow> world \<Rightarrow> go_error option \<times> world" where
  "os_MkdirAll e path perm w =
     (case attempt e (MkdirAll path perm) w of
        (Some err, w') \<Rightarrow> (Some err, w')
      | (None, w') \<Rightarrow>
          (case dirs w' path of
             Some p \<Rightarrow> (None, w')
           | None \<Rightarrow> (None, w'\<lparr>dirs := (dirs w')(path \<mapsto> perm)\<rparr>)))"

definition os_WriteFile :: "env \<Rightarrow> string \<Rightarrow> bytes \<Rightarrow> nat \<Rightarrow> world \<Rightarrow> go_error option \<times> world" where
  "os_WriteFile e path content perm w =
     (case attempt e (WriteFile path content perm) w of
        (Some err, w') \<Rightarrow> (Some err, w')
      | (None, w') \<Rightarrow> (None, w'\<lparr>files := (files w')(path \<mapsto> content)\<rparr>))"

text \<open>The library calls that read \<^verbatim>\<open>rand.Reader\<close>: recorded, and answered by the environment.\<close>

definition do_rsa_GenerateKey ::
  "env \<Rightarrow> nat \<Rightarrow> world \<Rightarrow> (go_error + rsa_PrivateKey) \<times> world" where
  "do_rsa_GenerateKey e bits w =
     (rsa_GenerateKey e (length (trace w)) bits, w\<lparr>trace := trace w @ [RsaGenerateKey bits]\<rparr>)"

definition do_rand_Int :: "env \<Rightarrow> int \<Rightarrow> world \<Rightarrow> (go_error + int) \<times> world" where
  "do_rand_Int e bound w =
     (rand_Int e (length (trace w)) bound, w\<lparr>trace := trace w @ [RandInt bound]\<rparr>)"

definition do_x509_CreateCertificate ::
  "env \<Rightarrow> x509_Certificate \<Rightarrow> x509_Certificate \<Rightarrow> rsa_PublicKey \<Rightarrow> rsa_PrivateKey \<Rightarrow> world
     \<Rightarrow> (go_error + bytes) \<times> world" where
  "do_x509_CreateCertificate e template parent pub priv w =
     (x509_CreateCertificate e (length (trace w)) template parent pub priv,
      w\<lparr>trace := trace w @ [X509CreateCertificate template parent pub priv]\<rparr>)"

text \<open>
  \<^verbatim>\<open>fmt.Errorf(msg + ": %w", err)\<close>.  A panic is not an error value: it unwinds
  through every caller unchanged.
\<close>

definition Errorf :: "string \<Rightarrow> go_error \<Rightarrow> go_error" where
  "Errorf msg err = (case err of RuntimePanic m \<Rightarrow> RuntimePanic m | _ \<Rightarrow> Wrapped msg err)"


section \<open>Package certs\<close>

record Config =
  ServiceName :: string
  Namespace :: string
  SecretName :: string
  WebhookConfigName :: string
  CertDir :: string
  CertValidity :: duration
  RenewalThreshold :: duration

definition SecretTypeTLS :: string where
  "SecretTypeTLS = ''kubernetes.io/tls''"

subsection \<open>generateCA and generateServerCert\<close>

text \<open>The certificate templates, as the two struct literals build them.\<close>

definition caTemplate :: "int \<Rightarrow> time \<Rightarrow> duration \<Rightarrow> x509_Certificate" where
  "caTemplate serial now validity =
     \<lparr>SerialNumber = serial,
      Subject = \<lparr>CommonName = ''webhook-ca'', Organization = [''butane-operator'']\<rparr>,
      DNSNames = [],
      NotBefore = now,
      NotAfter = now + validity,
      KeyUsage = KeyUsageCertSign OR KeyUsageCRLSign,
      ExtKeyUsage = [],
      BasicConstraintsValid = True,
      IsCA = True\<rparr>"

definition serverTemplate :: "int \<Rightarrow> time \<Rightarrow> string \<Rightarrow> string list \<Rightarrow> duration \<Rightarrow> x509_Certificate" where
  "serverTemplate serial now dnsNames0 dnsNames validity =
     \<lparr>SerialNumber = serial,
      Subject = \<lparr>CommonName = dnsNames0, Organization = [''butane-operator'']\<rparr>,
      DNSNames = dnsNames,
      NotBefore = now,
      NotAfter = now + validity,
      KeyUsage = KeyUsageDigitalSignature OR KeyUsageKeyEncipherment,
      ExtKeyUsage = [ExtKeyUsageServerAuth],
      BasicConstraintsValid = False,
      IsCA = False\<rparr>"

definition generateCA ::
  "env \<Rightarrow> duration \<Rightarrow> world
     \<Rightarrow> (go_error + x509_Certificate \<times> rsa_PrivateKey \<times> bytes) \<times> world" where
  "generateCA e validity w =
     (case do_rsa_GenerateKey e 4096 w of
        (Inl err, w1) \<Rightarrow> (Inl (Errorf ''generating CA key'' err), w1)
      | (Inr key, w1) \<Rightarrow>
     (case do_rand_Int e (push_bit 128 1) w1 of
        (Inl err, w2) \<Rightarrow> (Inl (Errorf ''generating serial number'' err), w2)
      | (Inr serial, w2) \<Rightarrow>
     (let now = time_Now e w2;
          tmpl = caTemplate serial now validity
      in case do_x509_CreateCertificate e tmpl tmpl (PublicKey key) key w2 of
        (Inl err, w3) \<Rightarrow> (Inl (Errorf ''creating CA certificate'' err), w3)
      | (Inr certDER, w3) \<Rightarrow>
     (case x509_ParseCertificate e certDER of
        Inl err \<Rightarrow> (Inl (Errorf ''parsing CA certificate'' err), w3)
      | Inr cert \<Rightarrow>
          (let certPEM = pem_EncodeToMemory e
                 \<lparr>blockType = ''CERTIFICATE'', blockHeaders = [], blockBytes = certDER\<rparr>
           in (Inr (cert, key, certPEM), w3))))))"

text \<open>\<^verbatim>\<open>dnsNames[0]\<close> on an empty slice panics, after the key and the serial number were drawn.\<close>

definition generateServerCert ::
  "env \<Rightarrow> x509_Certificate \<Rightarrow> rsa_PrivateKey \<Rightarrow> string list \<Rightarrow> duration \<Rightarrow> world
     \<Rightarrow> (go_error + bytes \<times> bytes) \<times> world" where
  "generateServerCert e caCert caKey dnsNames validity w =
     (case do_rsa_GenerateKey e 2048 w of
        (Inl err, w1) \<Rightarrow> (Inl (Errorf ''generating server key'' err), w1)
      | (Inr key, w1) \<Rightarrow>
     (case do_rand_Int e (push_bit 128 1) w1 of
        (Inl err, w2) \<Rightarrow> (Inl (Errorf ''generating serial number'' err), w2)
      | (Inr serial, w2) \<Rightarrow>
     (case dnsNames of
        [] \<Rightarrow> (Inl (RuntimePanic ''index out of range [0] with length 0''), w2)
      | dnsNames0 # others \<Rightarrow>
     (let now = time_Now e w2;
          tmpl = serverTemplate serial now dnsNames0 dnsNames validity
      in case do_x509_CreateCertificate e tmpl caCert (PublicKey key) caKey w2 of
        (Inl err, w3) \<Rightarrow> (Inl (Errorf ''creating server certificate'' err), w3)
      | (Inr certDER, w3) \<Rightarrow>
          (let certPEM = pem_EncodeToMemory e
                 \<lparr>blockType = ''CERTIFICATE'', blockHeaders = [], blockBytes = certDER\<rparr>;
               keyPEM = pem_EncodeToMemory e
                 \<lparr>blockType = ''RSA PRIVATE KEY'', blockHeaders = [],
                  blockBytes = x509_MarshalPKCS1PrivateKey e key\<rparr>
           in (Inr (certPEM, keyPEM), w3))))))"

subsection \<open>writeCertsToDisk\<close>

text \<open>The permissions are the octal literals \<^verbatim>\<open>0750\<close> and \<^verbatim>\<open>0640\<close>.\<close>

definition writeCertsToDisk ::
  "env \<Rightarrow> string \<Rightarrow> bytes \<Rightarrow> bytes \<Rightarrow> world \<Rightarrow> go_error option \<times> world" where
  "writeCertsToDisk e certDir certPEM keyPEM w =
     (case os_MkdirAll e certDir (7 * 64 + 5 * 8 + 0) w of
        (Some err, w1) \<Rightarrow> (Some (Errorf (Sprintf ''creating cert dir %s'' [certDir]) err), w1)
      | (None, w1) \<Rightarrow>
     (case os_WriteFile e (filepath_Join e certDir ''tls.crt'') certPEM (6 * 64 + 4 * 8 + 0) w1 of
        (Some err, w2) \<Rightarrow> (Some (Errorf ''writing tls.crt'' err), w2)
      | (None, w2) \<Rightarrow>
     (case os_WriteFile e (filepath_Join e certDir ''tls.key'') keyPEM (6 * 64 + 4 * 8 + 0) w2 of
        (Some err, w3) \<Rightarrow> (Some (Errorf ''writing tls.key'' err), w3)
      | (None, w3) \<Rightarrow> (None, w3))))"

subsection \<open>patchWebhookConfig\<close>

text \<open>
  The loop over the primary object's webhook list: every entry gets the bundle, and the
  flag \<open>updated\<close> is set at each entry.
\<close>

primrec setCABundles :: "bytes \<Rightarrow> Webhook list \<Rightarrow> bool \<Rightarrow> Webhook list \<times> bool" where
  "setCABundles caBundle [] updated = ([], updated)"
| "setCABundles caBundle (h # hs) updated =
     (let (hs', updated') = setCABundles caBundle hs True
      in (h\<lparr>ClientConfig := (ClientConfig h)\<lparr>CABundle := caBundle\<rparr>\<rparr> # hs', updated'))"

definition patchWebhookConfig ::
  "env \<Rightarrow> string \<Rightarrow> bytes \<Rightarrow> world \<Rightarrow> go_error option \<times> world" where
  "patchWebhookConfig e name caBundle w =
     (case ValidatingWebhookConfigurations_Get e name w of
        (Inl err, w1) \<Rightarrow>
          (Some (Errorf (Sprintf ''getting ValidatingWebhookConfiguration %s'' [name]) err), w1)
      | (Inr vwc, w1) \<Rightarrow>
     (let (hooks, updated) = setCABundles caBundle (Webhooks vwc) False;
          vwc' = vwc\<lparr>Webhooks := hooks\<rparr>
      in case (if updated then ValidatingWebhookConfigurations_Update e vwc' w1 else (None, w1)) of
        (Some err, w2) \<Rightarrow> (Some (Errorf ''updating ValidatingWebhookConfiguration'' err), w2)
      | (None, w2) \<Rightarrow>
     (let mwcName = mutatingWebhookName name
      in case MutatingWebhookConfigurations_Get e mwcName w2 of
        (Inr mwc, w3) \<Rightarrow>
          (let mwc' = mwc\<lparr>Webhooks := fst (setCABundles caBundle (Webhooks mwc) False)\<rparr>
           in case MutatingWebhookConfigurations_Update e mwc' w3 of
                (Some err, w4) \<Rightarrow> (Some (Errorf ''updating MutatingWebhookConfiguration'' err), w4)
              | (None, w4) \<Rightarrow> (None, w4))
      | (Inl err, w3) \<Rightarrow>
          if \<not> IsNotFound err
          then (Some (Errorf (Sprintf ''getting MutatingWebhookConfiguration %s'' [mwcName]) err), w3)
          else (None, w3))))"

subsection \<open>Ensure\<close>

text \<open>
  The second half of \<^verbatim>\<open>Ensure\<close>, from the comment ``Generate CA'' on, which both the
  renewal branch and the not-found branch fall through to.  After a failed Get the
  client hands back a zero-valued object (or nil), for which the test
  \<^verbatim>\<open>existing != nil && existing.Name != ""\<close> is false; \<open>existing\<close> is then the zero value.
\<close>

definition zeroSecret :: corev1_Secret where
  "zeroSecret = \<lparr>Name = [], metaNamespace = [], ResourceVersion = [],
                 secretType = [], Data = Map.empty\<rparr>"

definition Ensure_generate ::
  "env \<Rightarrow> Config \<Rightarrow> string list \<Rightarrow> corev1_Secret \<Rightarrow> world \<Rightarrow> go_error option \<times> world" where
  "Ensure_generate e cfg dnsNames existing w =
     (case generateCA e (CertValidity cfg) w of
        (Inl err, w1) \<Rightarrow> (Some (Errorf ''generating CA'' err), w1)
      | (Inr (caCert, caKey, caPEM), w1) \<Rightarrow>
     (case generateServerCert e caCert caKey dnsNames (CertValidity cfg) w1 of
        (Inl err, w2) \<Rightarrow> (Some (Errorf ''generating server cert'' err), w2)
      | (Inr (serverCertPEM, serverKeyPEM), w2) \<Rightarrow>
     (let secret =
            \<lparr>Name = SecretName cfg, metaNamespace = Namespace cfg, ResourceVersion = [],
             secretType = SecretTypeTLS,
             Data = [''ca.crt'' \<mapsto> caPEM, ''tls.crt'' \<mapsto> serverCertPEM,
                     ''tls.key'' \<mapsto> serverKeyPEM]\<rparr>
      in case (if Name existing \<noteq> []
               then (case Secrets_Update e (Namespace cfg)
                            (secret\<lparr>ResourceVersion := ResourceVersion existing\<rparr>) w2 of
                       (Some err, w3) \<Rightarrow> (Some (Errorf ''updating secret'' err), w3)
                     | (None, w3) \<Rightarrow> (None, w3))
               else (case Secrets_Create e (Namespace cfg) secret w2 of
                       (Some err, w3) \<Rightarrow> (Some (Errorf ''creating secret'' err), w3)
                     | (None, w3) \<Rightarrow> (None, w3))) of
        (Some err, w3) \<Rightarrow> (Some err, w3)
      | (None, w3) \<Rightarrow>
     (case writeCertsToDisk e (CertDir cfg) serverCertPEM serverKeyPEM w3 of
        (Some err, w4) \<Rightarrow> (Some (Errorf ''writing certs to disk'' err), w4)
      | (None, w4) \<Rightarrow> patchWebhookConfig e (WebhookConfigName cfg) caPEM w4))))"

definition Ensure :: "env \<Rightarrow> Config \<Rightarrow> world \<Rightarrow> go_error option \<times> world" where
  "Ensure e cfg w =
     (let dnsNames = dnsNamesForService (ServiceName cfg) (Namespace cfg)
      in case Secrets_Get e (Namespace cfg) (SecretName cfg) w of
        (Inr existing, w1) \<Rightarrow>
          if \<not> needsRenewal e (time_Now e w1) existing (RenewalThreshold cfg) then
            (case writeCertsToDisk e (CertDir cfg)
                    (index_Data (Data existing) ''tls.crt'')
                    (index_Data (Data existing) ''tls.key'') w1 of
               (Some err, w2) \<Rightarrow> (Some (Errorf ''writing existing certs to disk'' err), w2)
             | (None, w2) \<Rightarrow>
                 patchWebhookConfig e (WebhookConfigName cfg)
                   (index_Data (Data existing) ''ca.crt'') w2)
          else Ensure_generate e cfg dnsNames existing w1
      | (Inl err, w1) \<Rightarrow>
          if \<not> IsNotFound err
          then (Some (Errorf (Sprintf ''getting secret %s/%s'' [Namespace cfg, SecretName cfg]) err),
                w1)
          else Ensure_generate e cfg dnsNames zeroSecret w1)"


section \<open>Vocabulary of the properties\<close>

text \<open>The calls that write the durable Trust Record, and the update of the primary consumer.\<close>

fun is_secret_write :: "call \<Rightarrow> bool" where
  "is_secret_write (CreateSecret namespace secret) = True"
| "is_secret_write (UpdateSecret namespace secret) = True"
| "is_secret_write c = False"

fun is_primary_update :: "call \<Rightarrow> bool" where
  "is_primary_update (UpdateValidatingWebhookConfiguration vwc) = True"
| "is_primary_update c = False"

text \<open>A webhook entry with its CA-bundle field overwritten.\<close>

definition withCABundle :: "bytes \<Rightarrow> Webhook \<Rightarrow> Webhook" where
  "withCABundle caBundle h = h\<lparr>ClientConfig := (ClientConfig h)\<lparr>CABundle := caBundle\<rparr>\<rparr>"

text \<open>
  The primary stage of trust propagation went through, from the world \<open>w1\<close> after the
  Get to the world \<open>w2\<close>: with an empty webhook list nothing is done, otherwise the
  update of the patched object is accepted.
\<close>

definition primary_done ::
  "env \<Rightarrow> bytes \<Rightarrow> WebhookConfiguration \<Rightarrow> world \<Rightarrow> world \<Rightarrow> bool" where
  "primary_done e caBundle vwc w1 w2 \<longleftrightarrow>
     (if Webhooks vwc = [] then w2 = w1
      else ValidatingWebhookConfigurations_Update e
             (vwc\<lparr>Webhooks := map (withCABundle caBundle) (Webhooks vwc)\<rparr>) w1 = (None, w2))"

text \<open>The Trust Record a generation pass is expected to write, before any version token.\<close>

definition trustRecord :: "Config \<Rightarrow> bytes \<Rightarrow> bytes \<Rightarrow> bytes \<Rightarrow> corev1_Secret" where
  "trustRecord cfg caPEM serverCertPEM serverKeyPEM =
     \<lparr>Name = SecretName cfg, metaNamespace = Namespace cfg, ResourceVersion = [],
      secretType = ''kubernetes.io/tls'',
      Data = [''ca.crt'' \<mapsto> caPEM, ''tls.crt'' \<mapsto> serverCertPEM,
              ''tls.key'' \<mapsto> serverKeyPEM]\<rparr>"

subsection \<open>What the library makes of a template\<close>

text \<open>
  The standard library is not part of the package; what the properties of a generated
  certificate need from it is stated here.  DER stores the two ends of the validity
  window as whole seconds, so a certificate read back from its bytes has the fields of
  its template with both instants cut down to the second.
\<close>

definition truncateSecond :: "time \<Rightarrow> time" where
  "truncateSecond t = t - t mod 1000000000"

definition atSecondPrecision :: "x509_Certificate \<Rightarrow> x509_Certificate" where
  "atSecondPrecision c =
     c\<lparr>NotBefore := truncateSecond (NotBefore c), NotAfter := truncateSecond (NotAfter c)\<rparr>"

text \<open>
  The library parses what it creates: for the templates the package builds, the bytes
  made by \<^verbatim>\<open>x509.CreateCertificate\<close> parse to the template at second precision.
\<close>

definition x509_roundtrip :: "env \<Rightarrow> bool" where
  "x509_roundtrip e \<longleftrightarrow>
     (\<forall>i serial now validity parent pub priv der.
        x509_CreateCertificate e i (caTemplate serial now validity) parent pub priv = Inr der
        \<longrightarrow> x509_ParseCertificate e der
              = Inr (atSecondPrecision (caTemplate serial now validity)))
   \<and> (\<forall>i serial now dnsNames0 dnsNames validity parent pub priv der.
        x509_CreateCertificate e i (serverTemplate serial now dnsNames0 dnsNames validity)
          parent pub priv = Inr der
        \<longrightarrow> x509_ParseCertificate e der
              = Inr (atSecondPrecision (serverTemplate serial now dnsNames0 dnsNames validity)))"






section \<open>A small concrete environment\<close>

text \<open>
  An environment in which nothing fails, with stand-ins for the library: a certificate's
  DER form is its common name, PEM armour is the prefix \<^verbatim>\<open>PEM:\<close>, and a parsed
  certificate named \<^verbatim>\<open>stale\<close> has expired while any other lasts 400 days.
\<close>

definition day :: duration where
  "day = 24 * 3600 * 1000000000"

definition demo_parse :: "bytes \<Rightarrow> go_error + x509_Certificate" where
  "demo_parse der =
     (if der = [] then Inl (PlainError ''x509: malformed certificate'')
      else Inr \<lparr>SerialNumber = 1,
                Subject = \<lparr>CommonName = der, Organization = []\<rparr>,
                DNSNames = [],
                NotBefore = 0,
                NotAfter = (if der = ''stale'' then 0 else 400 * day),
                KeyUsage = 0,
                ExtKeyUsage = [],
                BasicConstraintsValid = False,
                IsCA = False\<rparr>)"

definition demo_env :: env where
  "demo_env =
     \<lparr>fault = (\<lambda>i c. None),
      clock = (\<lambda>i. 0),
      rsa_GenerateKey =
        (\<lambda>i bits. Inr \<lparr>PublicKey = \<lparr>modulus = int bits, exponent = 65537\<rparr>,
                        privateExponent = int i\<rparr>),
      rand_Int = (\<lambda>i bound. Inr (int i)),
      x509_CreateCertificate = (\<lambda>i tmpl parent pub priv. Inr (CommonName (Subject tmpl))),
      x509_ParseCertificate = demo_parse,
      x509_MarshalPKCS1PrivateKey = (\<lambda>key. ''key''),
      pem_Decode =
        (\<lambda>b. if take 4 b = ''PEM:''
             then Some \<lparr>blockType = ''CERTIFICATE'', blockHeaders = [], blockBytes = drop 4 b\<rparr>
             else None),
      pem_EncodeToMemory = (\<lambda>block. ''PEM:'' @ blockBytes block),
      filepath_Join = (\<lambda>dir name. dir @ ''/'' @ name)\<rparr>"

definition demo_cfg :: Config where
  "demo_cfg =
     \<lparr>ServiceName = ''svc'', Namespace = ''ns'', SecretName = ''cert'',
      WebhookConfigName = ''a-validating-cfg'', CertDir = ''/certs'',
      CertValidity = 365 * day, RenewalThreshold = 30 * day\<rparr>"

definition demo_secret :: "bytes \<Rightarrow> corev1_Secret" where
  "demo_secret leaf =
     \<lparr>Name = ''cert'', metaNamespace = ''ns'', ResourceVersion = ''7'',
      secretType = SecretTypeTLS,
      Data = [''ca.crt'' \<mapsto> ''PEM:ca'', ''tls.crt'' \<mapsto> leaf, ''tls.key'' \<mapsto> ''PEM:key'']\<rparr>"

definition demo_hook :: Webhook where
  "demo_hook = \<lparr>webhookName = ''test.webhook.io'', ClientConfig = \<lparr>CABundle = []\<rparr>\<rparr>"

definition demo_vwc :: "Webhook list \<Rightarrow> WebhookConfiguration" where
  "demo_vwc hooks =
     \<lparr>Name = ''a-validating-cfg'', metaNamespace = [], ResourceVersion = ''3'',
      Webhooks = hooks\<rparr>"

definition demo_world :: "corev1_Secret option \<Rightarrow> WebhookConfiguration option \<Rightarrow> world" where
  "demo_world stored primary =
     \<lparr>secrets = (case stored of None \<Rightarrow> Map.empty | Some s \<Rightarrow> [(''ns'', ''cert'') \<mapsto> s]),
      validatingWebhookConfigurations =
        (case primary of None \<Rightarrow> Map.empty | Some c \<Rightarrow> [''a-validating-cfg'' \<mapsto> c]),
      mutatingWebhookConfigurations = Map.empty,
      dirs = Map.empty,
      files = Map.empty,
      trace = []\<rparr>"


subsection \<open>An environment whose library parses what it creates\<close>

text \<open>
  The clock stands at one and a half seconds.  The library knows four templates, the
  authority's and the leaf's for a validity of 365 days, of nothing and of minus one
  day, and refuses every other; it parses the bytes of each back to the template at
  second precision.
\<close>

definition lib_caTemplate :: x509_Certificate where
  "lib_caTemplate = caTemplate 1 1500000000 (365 * day)"

definition lib_leafTemplate :: "duration \<Rightarrow> x509_Certificate" where
  "lib_leafTemplate validity =
     serverTemplate 4 1500000000 ''svc.ns.svc'' [''svc.ns.svc'', ''svc.ns.svc.cluster.local'']
       validity"

definition lib_caKey :: rsa_PrivateKey where
  "lib_caKey = \<lparr>PublicKey = \<lparr>modulus = 4096, exponent = 65537\<rparr>, privateExponent = 0\<rparr>"

definition lib_create :: "x509_Certificate \<Rightarrow> go_error + bytes" where
  "lib_create tmpl =
     (if tmpl = lib_caTemplate then Inr ''ca''
      else if tmpl = lib_leafTemplate (365 * day) then Inr ''leaf''
      else if tmpl = lib_leafTemplate 0 then Inr ''instant''
      else if tmpl = lib_leafTemplate (- day) then Inr ''expired''
      else Inl (PlainError ''x509: template not known to this library''))"

definition lib_parse :: "bytes \<Rightarrow> go_error + x509_Certificate" where
  "lib_parse der =
     (if der = ''ca'' then Inr (atSecondPrecision lib_caTemplate)
      else if der = ''leaf'' then Inr (atSecondPrecision (lib_leafTemplate (365 * day)))
      else if der = ''instant'' then Inr (atSecondPrecision (lib_leafTemplate 0))
      else if der = ''expired'' then Inr (atSecondPrecision (lib_leafTemplate (- day)))
      else Inl (PlainError ''x509: malformed certificate''))"

definition lib_env :: env where
  "lib_env =
     demo_env\<lparr>clock := (\<lambda>i. 1500000000),
              x509_CreateCertificate := (\<lambda>i tmpl parent pub priv. lib_create tmpl),
              x509_ParseCertificate := lib_parse\<rparr>"

text \<open>
  An environment whose parser finds a certificate that expired a little more than the
  greatest duration before the instant 0.
\<close>

definition ancient_cert :: x509_Certificate where
  "ancient_cert =
     \<lparr>SerialNumber = 1,
      Subject = \<lparr>CommonName = ''ancient'', Organization = []\<rparr>,
      DNSNames = [],
      NotBefore = - (2 ^ 63) - 2,
      NotAfter = - (2 ^ 63) - 1,
      KeyUsage = 0,
      ExtKeyUsage = [],
      BasicConstraintsValid = False,
      IsCA = False\<rparr>"

definition ancient_env :: env where
  "ancient_env = demo_env\<lparr>x509_ParseCertificate := (\<lambda>der. Inr ancient_cert)\<rparr>"

section \<open>Renewal policy\<close>

text \<open>
  Within the range of a duration the saturated difference is the exact one, and against
  any threshold above the least duration the two compare alike.
\<close>

lemma time_Until_exact:
  "minDuration \<le> t - now \<Longrightarrow> t - now \<le> maxDuration \<Longrightarrow> time_Until now t = t - now"
  by (simp add: time_Until_def time_Sub_def)

lemma time_Until_less_iff:
  "minDuration < threshold \<Longrightarrow> threshold \<le> maxDuration \<Longrightarrow>
   time_Until now t < threshold \<longleftrightarrow> t - now < threshold"
  by (auto simp: time_Until_def time_Sub_def Let_def)

lemma time_Until_clamped:
  "time_Until now t = max minDuration (min maxDuration (t - now))"
  by (simp add: time_Until_def time_Sub_def Let_def minDuration_def maxDuration_def)

text \<open>
  Claim C1, as the code has it.  \<^verbatim>\<open>needsRenewal\<close> answers true exactly when the field
  \<^verbatim>\<open>tls.crt\<close> is absent, or empty, or does not decode as PEM, or its block does not
  parse as a certificate, or the remaining validity of the parsed certificate is below
  the threshold, where the remaining validity is \<^verbatim>\<open>NotAfter\<close> minus now kept within
  the least and the greatest duration.  For every threshold above the least duration
  this is the plain comparison of \<^verbatim>\<open>NotAfter\<close> minus now with the threshold.  It
  answers false when the leaf certificate is present, well-formed and \<^verbatim>\<open>NotAfter\<close>
  minus now is at least the threshold.
\<close>

theorem needsRenewal_saturating:
  "(needsRenewal e now secret threshold \<longleftrightarrow>
      Data secret ''tls.crt'' = None
    \<or> Data secret ''tls.crt'' = Some []
    \<or> (\<exists>certPEM. Data secret ''tls.crt'' = Some certPEM \<and> pem_Decode e certPEM = None)
    \<or> (\<exists>certPEM block err.
          Data secret ''tls.crt'' = Some certPEM \<and> pem_Decode e certPEM = Some block
        \<and> x509_ParseCertificate e (blockBytes block) = Inl err)
    \<or> (\<exists>certPEM block cert.
          Data secret ''tls.crt'' = Some certPEM \<and> pem_Decode e certPEM = Some block
        \<and> x509_ParseCertificate e (blockBytes block) = Inr cert
        \<and> max (- 9223372036854775808) (min 9223372036854775807 (NotAfter cert - now))
            < threshold))
   \<and> (- 9223372036854775808 < threshold \<and> threshold \<le> 9223372036854775807 \<longrightarrow>
        (needsRenewal e now secret threshold \<longleftrightarrow>
            Data secret ''tls.crt'' = None
          \<or> Data secret ''tls.crt'' = Some []
          \<or> (\<exists>certPEM. Data secret ''tls.crt'' = Some certPEM \<and> pem_Decode e certPEM = None)
          \<or> (\<exists>certPEM block err.
                Data secret ''tls.crt'' = Some certPEM \<and> pem_Decode e certPEM = Some block
              \<and> x509_ParseCertificate e (blockBytes block) = Inl err)
          \<or> (\<exists>certPEM block cert.
                Data secret ''tls.crt'' = Some certPEM \<and> pem_Decode e certPEM = Some block
              \<and> x509_ParseCertificate e (blockBytes block) = Inr cert
              \<and> NotAfter cert - now < threshold)))
   \<and> (\<forall>certPEM block cert.
          Data secret ''tls.crt'' = Some certPEM \<and> certPEM \<noteq> []
        \<and> pem_Decode e certPEM = Some block
        \<and> x509_ParseCertificate e (blockBytes block) = Inr cert
        \<and> threshold \<le> 9223372036854775807
        \<and> threshold \<le> NotAfter cert - now
        \<longrightarrow> \<not> needsRenewal e now secret threshold)"
proof -
  have general: "needsRenewal e now secret threshold \<longleftrightarrow>
      Data secret ''tls.crt'' = None
    \<or> Data secret ''tls.crt'' = Some []
    \<or> (\<exists>certPEM. Data secret ''tls.crt'' = Some certPEM \<and> pem_Decode e certPEM = None)
    \<or> (\<exists>certPEM block err.
          Data secret ''tls.crt'' = Some certPEM \<and> pem_Decode e certPEM = Some block
        \<and> x509_ParseCertificate e (blockBytes block) = Inl err)
    \<or> (\<exists>certPEM block cert.
          Data secret ''tls.crt'' = Some certPEM \<and> pem_Decode e certPEM = Some block
        \<and> x509_ParseCertificate e (blockBytes block) = Inr cert
        \<and> time_Until now (NotAfter cert) < threshold)"
    by (auto simp: needsRenewal_def split: option.splits sum.splits)
  have clamp: "\<And>t. time_Until now t
                 = max (- 9223372036854775808) (min 9223372036854775807 (t - now))"
    by (simp add: time_Until_clamped minDuration_def maxDuration_def)
  have exact: "\<And>t. - 9223372036854775808 < threshold \<Longrightarrow> threshold \<le> 9223372036854775807
                 \<Longrightarrow> time_Until now t < threshold \<longleftrightarrow> t - now < threshold"
    using time_Until_less_iff [of threshold now] by (simp add: minDuration_def maxDuration_def)
  have enough: "\<And>t. threshold \<le> 9223372036854775807 \<Longrightarrow> threshold \<le> t - now
                 \<Longrightarrow> \<not> time_Until now t < threshold"
    unfolding clamp by linarith
  show ?thesis
  proof (intro conjI impI allI)
    show "needsRenewal e now secret threshold \<longleftrightarrow>
      Data secret ''tls.crt'' = None
    \<or> Data secret ''tls.crt'' = Some []
    \<or> (\<exists>certPEM. Data secret ''tls.crt'' = Some certPEM \<and> pem_Decode e certPEM = None)
    \<or> (\<exists>certPEM block err.
          Data secret ''tls.crt'' = Some certPEM \<and> pem_Decode e certPEM = Some block
        \<and> x509_ParseCertificate e (blockBytes block) = Inl err)
    \<or> (\<exists>certPEM block cert.
          Data secret ''tls.crt'' = Some certPEM \<and> pem_Decode e certPEM = Some block
        \<and> x509_ParseCertificate e (blockBytes block) = Inr cert
        \<and> max (- 9223372036854775808) (min 9223372036854775807 (NotAfter cert - now))
            < threshold)"
      unfolding general clamp ..
  next
    assume "- 9223372036854775808 < threshold \<and> threshold \<le> 9223372036854775807"
    then show "needsRenewal e now secret threshold \<longleftrightarrow>
            Data secret ''tls.crt'' = None
          \<or> Data secret ''tls.crt'' = Some []
          \<or> (\<exists>certPEM. Data secret ''tls.crt'' = Some certPEM \<and> pem_Decode e certPEM = None)
          \<or> (\<exists>certPEM block err.
                Data secret ''tls.crt'' = Some certPEM \<and> pem_Decode e certPEM = Some block
              \<and> x509_ParseCertificate e (blockBytes block) = Inl err)
          \<or> (\<exists>certPEM block cert.
                Data secret ''tls.crt'' = Some certPEM \<and> pem_Decode e certPEM = Some block
              \<and> x509_ParseCertificate e (blockBytes block) = Inr cert
              \<and> NotAfter cert - now < threshold)"
      unfolding general by (simp add: exact)
  next
    fix certPEM block cert
    assume "Data secret ''tls.crt'' = Some certPEM \<and> certPEM \<noteq> []
        \<and> pem_Decode e certPEM = Some block
        \<and> x509_ParseCertificate e (blockBytes block) = Inr cert
        \<and> threshold \<le> 9223372036854775807
        \<and> threshold \<le> NotAfter cert - now"
    then show "\<not> needsRenewal e now secret threshold"
      unfolding general using enough [of "NotAfter cert"] by auto
  qed
qed

theorem needsRenewal_saturating_witness:
  "- 9223372036854775808 < 30 * day \<and> 30 * day \<le> 9223372036854775807
   \<and> Data (demo_secret ''PEM:leaf'') ''tls.crt'' = Some ''PEM:leaf''
   \<and> pem_Decode demo_env ''PEM:leaf''
       = Some \<lparr>blockType = ''CERTIFICATE'', blockHeaders = [], blockBytes = ''leaf''\<rparr>
   \<and> \<not> needsRenewal demo_env 0 (demo_secret ''PEM:leaf'') (30 * day)
   \<and> needsRenewal demo_env 0 (demo_secret ''PEM:stale'') (30 * day)"
proof -
  let ?leaf = "\<lparr>blockType = ''CERTIFICATE'', blockHeaders = [], blockBytes = ''leaf''\<rparr>"
  let ?stale = "\<lparr>blockType = ''CERTIFICATE'', blockHeaders = [], blockBytes = ''stale''\<rparr>"
  have range: "- 9223372036854775808 < 30 * day \<and> 30 * day \<le> 9223372036854775807"
    by (simp add: day_def)
  have field: "Data (demo_secret ''PEM:leaf'') ''tls.crt'' = Some ''PEM:leaf''"
    by (simp add: demo_secret_def)
  have decoded: "pem_Decode demo_env ''PEM:leaf'' = Some ?leaf"
    by (simp add: demo_env_def)
  obtain cert where parsed: "x509_ParseCertificate demo_env (blockBytes ?leaf) = Inr cert"
    and last: "NotAfter cert = 400 * day"
    by (simp add: demo_env_def demo_parse_def)
  have enough: "30 * day \<le> NotAfter cert - 0"
    by (simp add: last day_def)
  from needsRenewal_saturating [of demo_env 0 "demo_secret ''PEM:leaf''" "30 * day"]
    field decoded parsed enough range
  have fresh: "\<not> needsRenewal demo_env 0 (demo_secret ''PEM:leaf'') (30 * day)"
    by fastforce
  have field': "Data (demo_secret ''PEM:stale'') ''tls.crt'' = Some ''PEM:stale''"
    by (simp add: demo_secret_def)
  have decoded': "pem_Decode demo_env ''PEM:stale'' = Some ?stale"
    by (simp add: demo_env_def)
  obtain cert' where parsed': "x509_ParseCertificate demo_env (blockBytes ?stale) = Inr cert'"
    and last': "NotAfter cert' = 0"
    by (simp add: demo_env_def demo_parse_def)
  have short: "NotAfter cert' - 0 < 30 * day"
    by (simp add: last' day_def)
  from needsRenewal_saturating [of demo_env 0 "demo_secret ''PEM:stale''" "30 * day"]
    field' decoded' parsed' short range
  have due: "needsRenewal demo_env 0 (demo_secret ''PEM:stale'') (30 * day)"
    by blast
  from range field decoded fresh due show ?thesis
    by blast
qed

text \<open>
  Claim C1 as stated fails at the least duration as threshold: for a certificate that
  expired more than the greatest duration ago, \<^verbatim>\<open>NotAfter\<close> minus now is below the
  threshold, and \<^verbatim>\<open>needsRenewal\<close> answers false, because the remaining validity
  stops at the least duration.
\<close>

theorem needsRenewal_least_threshold_counterexample:
  "Data (demo_secret ''PEM:ancient'') ''tls.crt'' = Some ''PEM:ancient''
   \<and> pem_Decode ancient_env ''PEM:ancient''
       = Some \<lparr>blockType = ''CERTIFICATE'', blockHeaders = [], blockBytes = ''ancient''\<rparr>
   \<and> x509_ParseCertificate ancient_env ''ancient'' = Inr ancient_cert
   \<and> minDuration = - 9223372036854775808
   \<and> NotAfter ancient_cert - 0 = - 9223372036854775809
   \<and> NotAfter ancient_cert - 0 < minDuration
   \<and> \<not> needsRenewal ancient_env 0 (demo_secret ''PEM:ancient'') minDuration"
  by (simp add: needsRenewal_def ancient_env_def ancient_cert_def demo_env_def demo_secret_def
        time_Until_def time_Sub_def minDuration_def maxDuration_def)

section \<open>DNS identities\<close>

text \<open>
  Claim C4.  For every service name and namespace the DNS identities are the two names
  \<^verbatim>\<open>s.n.svc\<close> and \<^verbatim>\<open>s.n.svc.cluster.local\<close>, in this order; the function is a function
  of its two arguments alone.
\<close>

theorem dnsNamesForService_exactly:
  "dnsNamesForService s n = [s @ ''.'' @ n @ ''.svc'', s @ ''.'' @ n @ ''.svc.cluster.local'']
   \<and> length (dnsNamesForService s n) = 2
   \<and> dnsNamesForService ''webhook-service'' ''my-ns''
       = [''webhook-service.my-ns.svc'', ''webhook-service.my-ns.svc.cluster.local'']"
  by (simp add: dnsNamesForService_def)

section \<open>The name of the secondary consumer\<close>

declare mutatingWebhookName_loop.simps [simp del]

lemma occurs_at_iff_sublist:
  "sublist p xs \<longleftrightarrow> (\<exists>j. take (length p) (drop j xs) = p)"
proof
  assume "sublist p xs"
  then obtain ps ss where "xs = ps @ p @ ss"
    by (auto simp: sublist_def)
  then have "take (length p) (drop (length ps) xs) = p"
    by simp
  then show "\<exists>j. take (length p) (drop j xs) = p" ..
next
  assume "\<exists>j. take (length p) (drop j xs) = p"
  then obtain j where j: "take (length p) (drop j xs) = p" ..
  have "xs = take j xs @ take (length p) (drop j xs) @ drop (length p) (drop j xs)"
    by (simp only: append_take_drop_id)
  with j have "xs = take j xs @ p @ drop (length p) (drop j xs)"
    by simp
  then show "sublist p xs"
    unfolding sublist_def by blast
qed

lemma loop_no_occurrence:
  "(\<forall>j\<ge>i. take (length old) (drop j name) \<noteq> old) \<Longrightarrow> mutatingWebhookName_loop name i = name"
proof (induction name i rule: mutatingWebhookName_loop.induct)
  case (1 name i)
  show ?case
  proof (cases "int i \<le> int (length name) - int (length old)")
    case True
    from "1.prems" have nomatch: "take (length old) (drop i name) \<noteq> old"
      by simp
    from "1.prems" have "\<forall>j\<ge>Suc i. take (length old) (drop j name) \<noteq> old"
      by simp
    with "1.IH" True nomatch have "mutatingWebhookName_loop name (Suc i) = name"
      by simp
    with True nomatch show ?thesis
      by (subst mutatingWebhookName_loop.simps) simp
  next
    case False
    then show ?thesis
      by (subst mutatingWebhookName_loop.simps) simp
  qed
qed

lemma loop_first_occurrence:
  "i \<le> k \<Longrightarrow> take (length old) (drop k name) = old \<Longrightarrow>
   (\<forall>j. i \<le> j \<and> j < k \<longrightarrow> take (length old) (drop j name) \<noteq> old) \<Longrightarrow>
   mutatingWebhookName_loop name i = take k name @ new @ drop (k + length old) name"
proof (induction name i rule: mutatingWebhookName_loop.induct)
  case (1 name i)
  from "1.prems"(2) have "length (take (length old) (drop k name)) = length old"
    by simp
  then have fits: "k + length old \<le> length name"
    by (simp add: old_def)
  with "1.prems"(1) have bound: "int i \<le> int (length name) - int (length old)"
    by simp
  show ?case
  proof (cases "take (length old) (drop i name) = old")
    case True
    with "1.prems" have "i = k"
      by (metis le_neq_implies_less order_refl)
    with True bound show ?thesis
      by (subst mutatingWebhookName_loop.simps) simp
  next
    case False
    with "1.prems" have "Suc i \<le> k"
      by (metis Suc_leI le_neq_implies_less)
    moreover from "1.prems"
    have "\<forall>j. Suc i \<le> j \<and> j < k \<longrightarrow> take (length old) (drop j name) \<noteq> old"
      by simp
    ultimately
    have "mutatingWebhookName_loop name (Suc i) = take k name @ new @ drop (k + length old) name"
      using "1.IH" bound False "1.prems"(2) by simp
    with bound False show ?thesis
      by (subst mutatingWebhookName_loop.simps) simp
  qed
qed

lemma window_before_occurrence:
  assumes "j < length pre" and "p \<noteq> []"
  shows "take (length p) (drop j (pre @ p @ post)) = take (length p) (drop j (pre @ butlast p))"
proof -
  have split: "pre @ p @ post = (pre @ butlast p) @ (last p # post)"
    using assms(2) by simp
  have "drop j ((pre @ butlast p) @ (last p # post)) = drop j (pre @ butlast p) @ (last p # post)"
    using assms(1) by simp
  moreover have "length p \<le> length (drop j (pre @ butlast p))"
    using assms by (cases p) auto
  ultimately show ?thesis
    unfolding split by simp
qed

text \<open>
  Claim C5.  The derived name replaces the leftmost occurrence of \<^verbatim>\<open>validating\<close> by
  \<^verbatim>\<open>mutating\<close> and nothing else: when the name is \<open>pre @ old @ post\<close> and no
  occurrence of the marker starts inside \<open>pre\<close>, the result is \<open>pre @ new @ post\<close>;
  a name without the marker is returned unchanged; and the two examples of the
  specification hold.
\<close>

theorem mutatingWebhookName_first_occurrence:
  "(\<forall>pre post. name = pre @ old @ post \<and> \<not> sublist old (pre @ butlast old) \<longrightarrow>
       mutatingWebhookName name = pre @ new @ post)
   \<and> (\<not> sublist old name \<longrightarrow> mutatingWebhookName name = name)
   \<and> old = ''validating'' \<and> new = ''mutating''
   \<and> mutatingWebhookName ''butane-operator-validating-webhook-configuration''
       = ''butane-operator-mutating-webhook-configuration''
   \<and> mutatingWebhookName ''no-match-here'' = ''no-match-here''"
proof (intro conjI allI impI)
  fix pre post
  assume a: "name = pre @ old @ post \<and> \<not> sublist old (pre @ butlast old)"
  have nonempty: "old \<noteq> []"
    by (simp add: old_def)
  have at: "take (length old) (drop (length pre) name) = old"
    using a by simp
  have before: "\<forall>j. 0 \<le> j \<and> j < length pre \<longrightarrow> take (length old) (drop j name) \<noteq> old"
  proof (intro allI impI)
    fix j assume "0 \<le> j \<and> j < length pre"
    then have "j < length pre"
      by simp
    from window_before_occurrence [OF this nonempty, of post] a
    have "take (length old) (drop j name) = take (length old) (drop j (pre @ butlast old))"
      by simp
    moreover have "take (length old) (drop j (pre @ butlast old)) \<noteq> old"
      using a occurs_at_iff_sublist [of old "pre @ butlast old"] by blast
    ultimately show "take (length old) (drop j name) \<noteq> old"
      by simp
  qed
  have "mutatingWebhookName name
          = take (length pre) name @ new @ drop (length pre + length old) name"
    unfolding mutatingWebhookName_def using at before
    by (intro loop_first_occurrence) simp_all
  with a show "mutatingWebhookName name = pre @ new @ post"
    by simp
next
  assume "\<not> sublist old name"
  then have "\<forall>j\<ge>0. take (length old) (drop j name) \<noteq> old"
    using occurs_at_iff_sublist [of old name] by blast
  then show "mutatingWebhookName name = name"
    unfolding mutatingWebhookName_def by (rule loop_no_occurrence)
next
  show "old = ''validating''"
    by (simp add: old_def)
next
  show "new = ''mutating''"
    by (simp add: new_def)
next
  show "mutatingWebhookName ''butane-operator-validating-webhook-configuration''
          = ''butane-operator-mutating-webhook-configuration''"
    by (simp add: mutatingWebhookName_def mutatingWebhookName_loop.simps old_def new_def)
next
  show "mutatingWebhookName ''no-match-here'' = ''no-match-here''"
    by (simp add: mutatingWebhookName_def mutatingWebhookName_loop.simps old_def new_def)
qed

theorem mutatingWebhookName_first_occurrence_witness:
  "\<not> sublist old (''a-'' @ butlast old)
   \<and> mutatingWebhookName ''a-validating-validating'' = ''a-mutating-validating''
   \<and> \<not> sublist old ''webhook''
   \<and> mutatingWebhookName ''webhook'' = ''webhook''"
proof -
  have first: "\<not> sublist old (''a-'' @ butlast old)"
    by code_simp
  have none: "\<not> sublist old ''webhook''"
    by code_simp
  have shape: "''a-validating-validating'' = ''a-'' @ old @ ''-validating''"
    by (simp add: old_def)
  from mutatingWebhookName_first_occurrence [of "''a-validating-validating''"] shape first
  have "mutatingWebhookName ''a-validating-validating'' = ''a-'' @ new @ ''-validating''"
    by blast
  moreover from mutatingWebhookName_first_occurrence [of "''webhook''"] none
  have "mutatingWebhookName ''webhook'' = ''webhook''"
    by blast
  ultimately show ?thesis
    using first none by (simp add: new_def)
qed


section \<open>What each effect changes\<close>

lemmas effect_defs =
  attempt_def Secrets_Get_def Secrets_Create_def Secrets_Update_def
  ValidatingWebhookConfigurations_Get_def ValidatingWebhookConfigurations_Update_def
  MutatingWebhookConfigurations_Get_def MutatingWebhookConfigurations_Update_def
  os_MkdirAll_def os_WriteFile_def
  do_rsa_GenerateKey_def do_rand_Int_def do_x509_CreateCertificate_def

lemma setCABundles_eq:
  "setCABundles ca hs updated = (map (withCABundle ca) hs, updated \<or> hs \<noteq> [])"
  by (induction hs arbitrary: updated) (simp_all add: withCABundle_def)

lemma Secrets_Get_frame:
  "Secrets_Get e ns name w = (r, w') \<Longrightarrow> w' = w\<lparr>trace := trace w @ [GetSecret ns name]\<rparr>"
  by (auto simp: effect_defs split: option.splits prod.splits)


lemma Secrets_Update_frame:
  "Secrets_Update e ns s w = (r, w') \<Longrightarrow>
     validatingWebhookConfigurations w' = validatingWebhookConfigurations w
   \<and> trace w' = trace w @ [UpdateSecret ns s]"
  by (auto simp: effect_defs split: option.splits prod.splits if_splits)

lemma Secrets_Create_frame:
  "Secrets_Create e ns s w = (r, w') \<Longrightarrow>
     validatingWebhookConfigurations w' = validatingWebhookConfigurations w
   \<and> trace w' = trace w @ [CreateSecret ns s]"
  by (auto simp: effect_defs split: option.splits prod.splits if_splits)

lemma Secrets_Update_ok:
  "Secrets_Update e ns s w = (None, w') \<Longrightarrow> secrets w' (ns, Name s) = Some s"
  by (auto simp: effect_defs split: option.splits prod.splits if_splits)

lemma Secrets_Create_ok:
  "Secrets_Create e ns s w = (None, w') \<Longrightarrow> secrets w' (ns, Name s) = Some s"
  by (auto simp: effect_defs split: option.splits prod.splits if_splits)

lemma generateCA_frame:
  "generateCA e validity w = (r, w') \<Longrightarrow>
     \<exists>d. w' = w\<lparr>trace := trace w @ d\<rparr> \<and> filter is_secret_write d = []"
  by (auto simp: generateCA_def effect_defs Let_def split: sum.splits prod.splits)

lemma generateServerCert_frame:
  "generateServerCert e caCert caKey dnsNames validity w = (r, w') \<Longrightarrow>
     \<exists>d. w' = w\<lparr>trace := trace w @ d\<rparr> \<and> filter is_secret_write d = []"
  by (auto simp: generateServerCert_def effect_defs Let_def
           split: sum.splits prod.splits list.splits)

lemma writeCertsToDisk_frame:
  "writeCertsToDisk e dir c k w = (r, w') \<Longrightarrow>
     secrets w' = secrets w
   \<and> validatingWebhookConfigurations w' = validatingWebhookConfigurations w
   \<and> mutatingWebhookConfigurations w' = mutatingWebhookConfigurations w
   \<and> (\<exists>d. trace w' = trace w @ d \<and> filter is_secret_write d = [])"
  by (auto simp: writeCertsToDisk_def effect_defs split: option.splits prod.splits)


lemma patchWebhookConfig_frame:
  "patchWebhookConfig e name ca w = (r, w') \<Longrightarrow>
     secrets w' = secrets w \<and> files w' = files w \<and> dirs w' = dirs w
   \<and> (\<exists>d. trace w' = trace w @ d \<and> filter is_secret_write d = [])"
  by (auto simp: patchWebhookConfig_def effect_defs setCABundles_eq Let_def
           split: option.splits prod.splits sum.splits if_splits)


lemma patchWebhookConfig_missing_primary:
  "validatingWebhookConfigurations w name = None \<Longrightarrow>
   \<exists>err. fst (patchWebhookConfig e name ca w) = Some err"
  by (auto simp: patchWebhookConfig_def effect_defs split: option.splits prod.splits)

subsection \<open>Runs of the concrete environment\<close>

lemmas demo_defs =
  demo_env_def demo_cfg_def demo_world_def demo_secret_def demo_vwc_def demo_hook_def
  demo_parse_def day_def

lemmas package_defs =
  Ensure_def Ensure_generate_def generateCA_def generateServerCert_def writeCertsToDisk_def
  patchWebhookConfig_def needsRenewal_def dnsNamesForService_def mutatingWebhookName_def
  mutatingWebhookName_loop.simps old_def new_def index_Data_def time_Now_def
  time_Until_def time_Sub_def minDuration_def maxDuration_def Errorf_def
  caTemplate_def serverTemplate_def SecretTypeTLS_def Let_def


section \<open>Trust propagation\<close>

lemma Ensure_generate_missing_primary:
  assumes "validatingWebhookConfigurations w (WebhookConfigName cfg) = None"
  shows "\<exists>err. fst (Ensure_generate e cfg dnsNames existing w) = Some err"
proof (cases "generateCA e (CertValidity cfg) w")
  case (Pair r1 w1)
  note ca = this
  from generateCA_frame [OF ca] assms
  have p1: "validatingWebhookConfigurations w1 (WebhookConfigName cfg) = None"
    by auto
  show ?thesis
  proof (cases r1)
    case (Inl err)
    with ca show ?thesis
      by (simp add: Ensure_generate_def)
  next
    case (Inr triple)
    obtain caCert caKey caPEM where triple: "triple = (caCert, caKey, caPEM)"
      by (cases triple) auto
    show ?thesis
    proof (cases "generateServerCert e caCert caKey dnsNames (CertValidity cfg) w1")
      case (Pair r2 w2)
      note leaf = this
      from generateServerCert_frame [OF leaf] p1
      have p2: "validatingWebhookConfigurations w2 (WebhookConfigName cfg) = None"
        by auto
      show ?thesis
      proof (cases r2)
        case (Inl err)
        with ca leaf \<open>r1 = Inr triple\<close> triple show ?thesis
          by (simp add: Ensure_generate_def)
      next
        case (Inr pems)
        obtain crt key where pems: "pems = (crt, key)"
          by (cases pems) auto
        from ca leaf \<open>r1 = Inr triple\<close> triple Inr pems p2 show ?thesis
          by (auto simp: Ensure_generate_def Let_def
                split: option.splits prod.splits if_splits
                dest!: Secrets_Update_frame Secrets_Create_frame writeCertsToDisk_frame
                intro!: patchWebhookConfig_missing_primary)
      qed
    qed
  qed
qed

lemma Ensure_missing_primary:
  assumes "validatingWebhookConfigurations w (WebhookConfigName cfg) = None"
  shows "\<exists>err. fst (Ensure e cfg w) = Some err"
proof (cases "Secrets_Get e (Namespace cfg) (SecretName cfg) w")
  case (Pair g w1)
  from Secrets_Get_frame [OF Pair] assms
  have p1: "validatingWebhookConfigurations w1 (WebhookConfigName cfg) = None"
    by simp
  show ?thesis
    using Pair p1 Ensure_generate_missing_primary [OF p1]
    by (auto simp: Ensure_def Let_def split: sum.splits option.splits prod.splits
             dest!: writeCertsToDisk_frame intro!: patchWebhookConfig_missing_primary)
qed

lemma Ensure_succeeds_without_secondary:
  assumes "\<forall>i c. fault e i c = None"
    and "secrets w (Namespace cfg, SecretName cfg) = Some existing"
    and "\<not> needsRenewal e (clock e (Suc (length (trace w)))) existing (RenewalThreshold cfg)"
    and "validatingWebhookConfigurations w (WebhookConfigName cfg) = Some vwc"
    and "Name vwc = WebhookConfigName cfg"
    and "mutatingWebhookConfigurations w (mutatingWebhookName (WebhookConfigName cfg)) = None"
  shows "fst (Ensure e cfg w) = None
       \<and> validatingWebhookConfigurations (snd (Ensure e cfg w)) (WebhookConfigName cfg)
           = Some (vwc\<lparr>Webhooks :=
                map (withCABundle (index_Data (Data existing) ''ca.crt'')) (Webhooks vwc)\<rparr>)"
  using assms
  by (cases "dirs w (CertDir cfg)"; cases "Webhooks vwc = []")
     (simp_all add: Ensure_def writeCertsToDisk_def patchWebhookConfig_def effect_defs
        setCABundles_eq stale_def time_Now_def Let_def)

text \<open>
  Claim C2, as the code has it.  When the primary object is fetched, every entry of its
  webhook list gets the authority bytes as its CA bundle; with a non-empty list the
  update of the patched object is the call that follows the Get, and once the cluster
  accepts it the patched object is what is stored; with an empty list no update of the
  primary object is issued and the stored objects are left as they were.
\<close>

theorem patchWebhookConfig_primary_update:
  assumes "ValidatingWebhookConfigurations_Get e name w = (Inr vwc, w1)"
    and "patchWebhookConfig e name caBundle w = (r, w')"
  shows "let patched = vwc\<lparr>Webhooks := map (withCABundle caBundle) (Webhooks vwc)\<rparr>
         in length (Webhooks patched) = length (Webhooks vwc)
          \<and> (\<forall>h\<in>set (Webhooks patched). CABundle (ClientConfig h) = caBundle)
          \<and> (Webhooks vwc \<noteq> [] \<longrightarrow>
               (\<exists>rest. trace w' = trace w @ [GetValidatingWebhookConfiguration name,
                                              UpdateValidatingWebhookConfiguration patched] @ rest)
             \<and> (\<forall>w2. ValidatingWebhookConfigurations_Update e patched w1 = (None, w2) \<longrightarrow>
                   validatingWebhookConfigurations w' (Name vwc) = Some patched))
          \<and> (Webhooks vwc = [] \<longrightarrow>
               filter is_primary_update (drop (length (trace w)) (trace w')) = []
             \<and> validatingWebhookConfigurations w' = validatingWebhookConfigurations w)"
proof -
  have entries: "\<forall>h\<in>set (map (withCABundle caBundle) (Webhooks vwc)).
                   CABundle (ClientConfig h) = caBundle"
    by (simp add: withCABundle_def)
  have calls: "(Webhooks vwc \<noteq> [] \<longrightarrow>
           (\<exists>rest. trace w' = trace w @ [GetValidatingWebhookConfiguration name,
               UpdateValidatingWebhookConfiguration
                 (vwc\<lparr>Webhooks := map (withCABundle caBundle) (Webhooks vwc)\<rparr>)] @ rest)
         \<and> (\<forall>w2. ValidatingWebhookConfigurations_Update e
                   (vwc\<lparr>Webhooks := map (withCABundle caBundle) (Webhooks vwc)\<rparr>) w1 = (None, w2)
               \<longrightarrow> validatingWebhookConfigurations w' (Name vwc)
                     = Some (vwc\<lparr>Webhooks := map (withCABundle caBundle) (Webhooks vwc)\<rparr>)))
       \<and> (Webhooks vwc = [] \<longrightarrow>
           filter is_primary_update (drop (length (trace w)) (trace w')) = []
         \<and> validatingWebhookConfigurations w' = validatingWebhookConfigurations w)"
    using assms
    by (auto simp: patchWebhookConfig_def effect_defs setCABundles_eq Let_def
             split: option.splits prod.splits sum.splits if_splits)
  from entries calls show ?thesis
    by (simp add: Let_def)
qed

theorem patchWebhookConfig_primary_update_witness:
  "Webhooks (demo_vwc [demo_hook]) \<noteq> []
   \<and> validatingWebhookConfigurations
       (snd (patchWebhookConfig demo_env ''a-validating-cfg'' ''PEM:ca''
               (demo_world None (Some (demo_vwc [demo_hook])))))
       ''a-validating-cfg''
     = Some (demo_vwc [withCABundle ''PEM:ca'' demo_hook])"
proof -
  let ?w = "demo_world None (Some (demo_vwc [demo_hook]))"
  obtain w1 where get:
    "ValidatingWebhookConfigurations_Get demo_env ''a-validating-cfg'' ?w
       = (Inr (demo_vwc [demo_hook]), w1)"
    by (simp add: effect_defs demo_defs)
  obtain r w' where run: "patchWebhookConfig demo_env ''a-validating-cfg'' ''PEM:ca'' ?w = (r, w')"
    by (cases "patchWebhookConfig demo_env ''a-validating-cfg'' ''PEM:ca'' ?w") auto
  have nonempty: "Webhooks (demo_vwc [demo_hook]) \<noteq> []"
    by (simp add: demo_vwc_def)
  have patched: "(demo_vwc [demo_hook])\<lparr>Webhooks :=
                    map (withCABundle ''PEM:ca'') (Webhooks (demo_vwc [demo_hook]))\<rparr>
                 = demo_vwc [withCABundle ''PEM:ca'' demo_hook]"
    by (simp add: demo_vwc_def)
  have accepted: "\<exists>w2. ValidatingWebhookConfigurations_Update demo_env
                    (demo_vwc [withCABundle ''PEM:ca'' demo_hook]) w1 = (None, w2)"
    using get by (auto simp: effect_defs demo_defs stale_def)
  have named: "Name (demo_vwc [demo_hook]) = ''a-validating-cfg''"
    by (simp add: demo_vwc_def)
  from patchWebhookConfig_primary_update [OF get run] nonempty patched accepted named
  have "validatingWebhookConfigurations w' ''a-validating-cfg''
          = Some (demo_vwc [withCABundle ''PEM:ca'' demo_hook])"
    by (auto simp: Let_def)
  with run nonempty show ?thesis
    by simp
qed

text \<open>
  Claim C2 as stated fails on an empty webhook list: the primary object exists, its list
  is empty, and the run of trust propagation performs the two Gets and no update.
\<close>

theorem patchWebhookConfig_empty_list_counterexample:
  "validatingWebhookConfigurations (demo_world None (Some (demo_vwc []))) ''a-validating-cfg''
     = Some (demo_vwc [])
   \<and> Webhooks (demo_vwc []) = []
   \<and> patchWebhookConfig demo_env ''a-validating-cfg'' ''PEM:ca''
       (demo_world None (Some (demo_vwc [])))
     = (None, (demo_world None (Some (demo_vwc [])))
         \<lparr>trace := [GetValidatingWebhookConfiguration ''a-validating-cfg'',
                   GetMutatingWebhookConfiguration ''a-mutating-cfg'']\<rparr>)"
  by (simp add: patchWebhookConfig_def effect_defs demo_world_def demo_vwc_def demo_env_def
        mutatingWebhookName_def mutatingWebhookName_loop.simps old_def new_def)

text \<open>
  Claim C6.  A failed Get of the primary object, not-found included, is the error of
  trust propagation, and \<^verbatim>\<open>Ensure\<close> reports an error whenever the primary object is
  missing; a failed update of the primary is fatal; a failed Get of the secondary is
  skipped when it is a not-found and fatal otherwise; a failed update of the secondary
  is fatal; and with the secondary missing \<^verbatim>\<open>Ensure\<close> succeeds and leaves the primary
  patched.
\<close>

theorem trust_propagation_errors:
  "(\<forall>err w1. ValidatingWebhookConfigurations_Get e name w = (Inl err, w1) \<longrightarrow>
      patchWebhookConfig e name ca w
        = (Some (Errorf (Sprintf ''getting ValidatingWebhookConfiguration %s'' [name]) err), w1))
   \<and> (validatingWebhookConfigurations w (WebhookConfigName cfg) = None \<longrightarrow>
        (\<exists>err. fst (Ensure e cfg w) = Some err))
   \<and> (\<forall>vwc w1 err w2.
        ValidatingWebhookConfigurations_Get e name w = (Inr vwc, w1) \<and> Webhooks vwc \<noteq> []
      \<and> ValidatingWebhookConfigurations_Update e
          (vwc\<lparr>Webhooks := map (withCABundle ca) (Webhooks vwc)\<rparr>) w1 = (Some err, w2) \<longrightarrow>
      patchWebhookConfig e name ca w
        = (Some (Errorf ''updating ValidatingWebhookConfiguration'' err), w2))
   \<and> (\<forall>vwc w1 w2 err w3.
        ValidatingWebhookConfigurations_Get e name w = (Inr vwc, w1)
      \<and> primary_done e ca vwc w1 w2
      \<and> MutatingWebhookConfigurations_Get e (mutatingWebhookName name) w2 = (Inl err, w3) \<longrightarrow>
      patchWebhookConfig e name ca w
        = (if IsNotFound err then (None, w3)
           else (Some (Errorf (Sprintf ''getting MutatingWebhookConfiguration %s''
                                  [mutatingWebhookName name]) err), w3)))
   \<and> (\<forall>vwc w1 w2 mwc w3 r w4.
        ValidatingWebhookConfigurations_Get e name w = (Inr vwc, w1)
      \<and> primary_done e ca vwc w1 w2
      \<and> MutatingWebhookConfigurations_Get e (mutatingWebhookName name) w2 = (Inr mwc, w3)
      \<and> MutatingWebhookConfigurations_Update e
          (mwc\<lparr>Webhooks := map (withCABundle ca) (Webhooks mwc)\<rparr>) w3 = (r, w4) \<longrightarrow>
      patchWebhookConfig e name ca w
        = (map_option (Errorf ''updating MutatingWebhookConfiguration'') r, w4))
   \<and> (\<forall>existing vwc.
        (\<forall>i c. fault e i c = None)
      \<and> secrets w (Namespace cfg, SecretName cfg) = Some existing
      \<and> \<not> needsRenewal e (clock e (Suc (length (trace w)))) existing (RenewalThreshold cfg)
      \<and> validatingWebhookConfigurations w (WebhookConfigName cfg) = Some vwc
      \<and> Name vwc = WebhookConfigName cfg
      \<and> mutatingWebhookConfigurations w (mutatingWebhookName (WebhookConfigName cfg)) = None \<longrightarrow>
      fst (Ensure e cfg w) = None
      \<and> validatingWebhookConfigurations (snd (Ensure e cfg w)) (WebhookConfigName cfg)
          = Some (vwc\<lparr>Webhooks :=
               map (withCABundle (index_Data (Data existing) ''ca.crt'')) (Webhooks vwc)\<rparr>))"
proof (intro conjI)
  show "\<forall>existing vwc.
        (\<forall>i c. fault e i c = None)
      \<and> secrets w (Namespace cfg, SecretName cfg) = Some existing
      \<and> \<not> needsRenewal e (clock e (Suc (length (trace w)))) existing (RenewalThreshold cfg)
      \<and> validatingWebhookConfigurations w (WebhookConfigName cfg) = Some vwc
      \<and> Name vwc = WebhookConfigName cfg
      \<and> mutatingWebhookConfigurations w (mutatingWebhookName (WebhookConfigName cfg)) = None \<longrightarrow>
      fst (Ensure e cfg w) = None
      \<and> validatingWebhookConfigurations (snd (Ensure e cfg w)) (WebhookConfigName cfg)
          = Some (vwc\<lparr>Webhooks :=
               map (withCABundle (index_Data (Data existing) ''ca.crt'')) (Webhooks vwc)\<rparr>)"
    using Ensure_succeeds_without_secondary [of e w cfg] by blast
next
  show "validatingWebhookConfigurations w (WebhookConfigName cfg) = None \<longrightarrow>
        (\<exists>err. fst (Ensure e cfg w) = Some err)"
    using Ensure_missing_primary [of w cfg e] by blast
qed (auto simp: patchWebhookConfig_def setCABundles_eq Let_def primary_done_def
           split: option.splits prod.splits sum.splits if_splits)

theorem trust_propagation_errors_witness:
  "validatingWebhookConfigurations (demo_world (Some (demo_secret ''PEM:leaf'')) None)
       ''a-validating-cfg'' = None
   \<and> (\<exists>err. fst (Ensure demo_env demo_cfg
                   (demo_world (Some (demo_secret ''PEM:leaf'')) None)) = Some err)
   \<and> mutatingWebhookConfigurations
       (demo_world (Some (demo_secret ''PEM:leaf'')) (Some (demo_vwc [demo_hook])))
       ''a-mutating-cfg'' = None
   \<and> fst (Ensure demo_env demo_cfg
            (demo_world (Some (demo_secret ''PEM:leaf'')) (Some (demo_vwc [demo_hook])))) = None
   \<and> validatingWebhookConfigurations
       (snd (Ensure demo_env demo_cfg
               (demo_world (Some (demo_secret ''PEM:leaf'')) (Some (demo_vwc [demo_hook])))))
       ''a-validating-cfg''
     = Some (demo_vwc [withCABundle ''PEM:ca'' demo_hook])"
proof -
  let ?bare = "demo_world (Some (demo_secret ''PEM:leaf'')) None"
  let ?w = "demo_world (Some (demo_secret ''PEM:leaf'')) (Some (demo_vwc [demo_hook]))"
  have missing: "validatingWebhookConfigurations ?bare (WebhookConfigName demo_cfg) = None"
    by (simp add: demo_defs)
  with trust_propagation_errors [of demo_env _ ?bare _ demo_cfg]
  have fatal: "\<exists>err. fst (Ensure demo_env demo_cfg ?bare) = Some err"
    by blast
  have nofault: "\<forall>i c. fault demo_env i c = None"
    by (simp add: demo_env_def)
  have stored: "secrets ?w (Namespace demo_cfg, SecretName demo_cfg) = Some (demo_secret ''PEM:leaf'')"
    by (simp add: demo_defs)
  have valid: "\<not> needsRenewal demo_env (clock demo_env (Suc (length (trace ?w))))
                   (demo_secret ''PEM:leaf'') (RenewalThreshold demo_cfg)"
    by (simp add: package_defs demo_defs)
  have primary: "validatingWebhookConfigurations ?w (WebhookConfigName demo_cfg)
                   = Some (demo_vwc [demo_hook])"
    by (simp add: demo_defs)
  have named: "Name (demo_vwc [demo_hook]) = WebhookConfigName demo_cfg"
    by (simp add: demo_defs)
  have derived: "mutatingWebhookName (WebhookConfigName demo_cfg) = ''a-mutating-cfg''"
    by (simp add: package_defs demo_defs)
  have nosecondary: "mutatingWebhookConfigurations ?w ''a-mutating-cfg'' = None"
    by (simp add: demo_defs)
  from trust_propagation_errors [of demo_env _ ?w _ demo_cfg]
    nofault stored valid primary named derived nosecondary
  have "fst (Ensure demo_env demo_cfg ?w) = None
      \<and> validatingWebhookConfigurations (snd (Ensure demo_env demo_cfg ?w))
           (WebhookConfigName demo_cfg)
          = Some ((demo_vwc [demo_hook])\<lparr>Webhooks :=
               map (withCABundle (index_Data (Data (demo_secret ''PEM:leaf'')) ''ca.crt''))
                 (Webhooks (demo_vwc [demo_hook]))\<rparr>)"
    by metis
  then have "fst (Ensure demo_env demo_cfg ?w) = None
      \<and> validatingWebhookConfigurations (snd (Ensure demo_env demo_cfg ?w)) ''a-validating-cfg''
          = Some (demo_vwc [withCABundle ''PEM:ca'' demo_hook])"
    by (simp add: demo_cfg_def demo_vwc_def demo_secret_def index_Data_def)
  with missing fatal nosecondary show ?thesis
    by (simp add: demo_cfg_def)
qed

section \<open>Certificate generation\<close>

lemma generateCA_calls:
  assumes "generateCA e validity w = (Inr (cert, key, certPEM), w')"
  shows "\<exists>serial certDER.
           rsa_GenerateKey e (length (trace w)) 4096 = Inr key
         \<and> rand_Int e (length (trace w) + 1) (2 ^ 128) = Inr serial
         \<and> x509_CreateCertificate e (length (trace w) + 2)
               (caTemplate serial (clock e (length (trace w) + 2)) validity)
               (caTemplate serial (clock e (length (trace w) + 2)) validity)
               (PublicKey key) key = Inr certDER
         \<and> trace w' = trace w @ [RsaGenerateKey 4096, RandInt (2 ^ 128),
               X509CreateCertificate
                 (caTemplate serial (clock e (length (trace w) + 2)) validity)
                 (caTemplate serial (clock e (length (trace w) + 2)) validity)
                 (PublicKey key) key]
         \<and> x509_ParseCertificate e certDER = Inr cert
         \<and> certPEM = pem_EncodeToMemory e
             \<lparr>blockType = ''CERTIFICATE'', blockHeaders = [], blockBytes = certDER\<rparr>"
  using assms
  by (auto simp: generateCA_def effect_defs time_Now_def Let_def
        split: sum.splits prod.splits)


lemma truncateSecond_bounds:
  "truncateSecond t \<le> t \<and> t < truncateSecond t + 1000000000
   \<and> truncateSecond t mod 1000000000 = 0"
proof -
  have "0 \<le> t mod 1000000000" "t mod 1000000000 < 1000000000"
    by simp_all
  moreover have "(t - t mod 1000000000) mod 1000000000 = 0"
    by (simp add: mod_diff_right_eq)
  ultimately show ?thesis
    by (simp add: truncateSecond_def)
qed

lemma lib_env_roundtrip: "x509_roundtrip lib_env"
  by (auto simp: x509_roundtrip_def lib_env_def lib_create_def lib_parse_def split: if_splits)

text \<open>
  Claim C9, as the code has it.  With a library that parses what it creates, the
  certificate returned by a successful \<^verbatim>\<open>generateCA\<close> is a CA, has the
  certificate-sign bit in its key usage and is named \<^verbatim>\<open>webhook-ca\<close>; its key was
  drawn with a request for 4096 bits and signs it.  The template's window runs from the
  reading of the clock to that reading plus the validity; the certificate's window is
  that window with both ends cut down to the second, so it starts at most at the
  reading of the clock and less than a second before it.
\<close>

theorem generateCA_authority_certificate:
  assumes "x509_roundtrip e"
    and "generateCA e validity w = (Inr (cert, key, certPEM), w')"
  shows "\<exists>serial certDER.
           rsa_GenerateKey e (length (trace w)) 4096 = Inr key
         \<and> rand_Int e (length (trace w) + 1) (2 ^ 128) = Inr serial
         \<and> (let now = clock e (length (trace w) + 2);
                tmpl = caTemplate serial now validity
            in x509_CreateCertificate e (length (trace w) + 2) tmpl tmpl (PublicKey key) key
                 = Inr certDER
             \<and> NotBefore tmpl = now \<and> NotAfter tmpl = now + validity
             \<and> cert = atSecondPrecision tmpl
             \<and> NotBefore cert = now - now mod 1000000000
             \<and> NotAfter cert = now + validity - (now + validity) mod 1000000000
             \<and> NotBefore cert \<le> now \<and> now < NotBefore cert + 1000000000
             \<and> NotAfter cert \<le> now + validity \<and> now + validity < NotAfter cert + 1000000000)
         \<and> x509_ParseCertificate e certDER = Inr cert
         \<and> certPEM = pem_EncodeToMemory e
             \<lparr>blockType = ''CERTIFICATE'', blockHeaders = [], blockBytes = certDER\<rparr>
         \<and> IsCA cert
         \<and> BasicConstraintsValid cert
         \<and> KeyUsage cert AND KeyUsageCertSign \<noteq> 0
         \<and> CommonName (Subject cert) = ''webhook-ca''"
proof -
  from generateCA_calls [OF assms(2)] obtain serial certDER where
    key: "rsa_GenerateKey e (length (trace w)) 4096 = Inr key"
    and serial: "rand_Int e (length (trace w) + 1) (2 ^ 128) = Inr serial"
    and create: "x509_CreateCertificate e (length (trace w) + 2)
               (caTemplate serial (clock e (length (trace w) + 2)) validity)
               (caTemplate serial (clock e (length (trace w) + 2)) validity)
               (PublicKey key) key = Inr certDER"
    and parse: "x509_ParseCertificate e certDER = Inr cert"
    and pem: "certPEM = pem_EncodeToMemory e
             \<lparr>blockType = ''CERTIFICATE'', blockHeaders = [], blockBytes = certDER\<rparr>"
    by blast
  let ?now = "clock e (length (trace w) + 2)"
  from assms(1) create
  have "x509_ParseCertificate e certDER = Inr (atSecondPrecision (caTemplate serial ?now validity))"
    unfolding x509_roundtrip_def by blast
  with parse have cert: "cert = atSecondPrecision (caTemplate serial ?now validity)"
    by simp
  have fields: "IsCA cert \<and> BasicConstraintsValid cert
      \<and> KeyUsage cert AND KeyUsageCertSign \<noteq> 0
      \<and> CommonName (Subject cert) = ''webhook-ca''
      \<and> NotBefore cert = truncateSecond ?now
      \<and> NotAfter cert = truncateSecond (?now + validity)"
    by (simp add: cert atSecondPrecision_def caTemplate_def KeyUsageCertSign_def
          KeyUsageCRLSign_def)
  have window: "NotBefore cert = ?now - ?now mod 1000000000
      \<and> NotAfter cert = ?now + validity - (?now + validity) mod 1000000000
      \<and> NotBefore cert \<le> ?now \<and> ?now < NotBefore cert + 1000000000
      \<and> NotAfter cert \<le> ?now + validity \<and> ?now + validity < NotAfter cert + 1000000000"
    using fields truncateSecond_bounds [of ?now] truncateSecond_bounds [of "?now + validity"]
    by (simp add: truncateSecond_def)
  have tmpl: "NotBefore (caTemplate serial ?now validity) = ?now
      \<and> NotAfter (caTemplate serial ?now validity) = ?now + validity"
    by (simp add: caTemplate_def)
  from key serial create parse pem cert fields window tmpl show ?thesis
    by (auto simp: Let_def)
qed

theorem generateCA_authority_certificate_witness:
  "x509_roundtrip lib_env
   \<and> fst (generateCA lib_env (365 * day) (demo_world None None))
       = Inr (atSecondPrecision lib_caTemplate, lib_caKey, ''PEM:ca'')
   \<and> IsCA (atSecondPrecision lib_caTemplate)
   \<and> CommonName (Subject (atSecondPrecision lib_caTemplate)) = ''webhook-ca''"
proof -
  obtain w' where run:
    "generateCA lib_env (365 * day) (demo_world None None)
       = (Inr (atSecondPrecision lib_caTemplate, lib_caKey, ''PEM:ca''), w')"
    by (simp add: generateCA_def effect_defs time_Now_def Let_def lib_env_def demo_env_def
          demo_world_def lib_create_def lib_parse_def lib_caTemplate_def lib_caKey_def)
  from generateCA_authority_certificate [OF lib_env_roundtrip run]
  have "IsCA (atSecondPrecision lib_caTemplate)
      \<and> CommonName (Subject (atSecondPrecision lib_caTemplate)) = ''webhook-ca''"
    by blast
  with run lib_env_roundtrip show ?thesis
    by simp
qed

text \<open>
  Claim C9 as stated fails when the clock is read between two seconds: generated at
  1.5 seconds for 365 days, the authority's certificate is valid from 1 second to 365
  days and 1 second, not from 1.5 seconds to 365 days and 1.5 seconds.
\<close>

theorem generateCA_window_counterexample:
  "fst (generateCA lib_env (365 * day) (demo_world None None))
     = Inr (atSecondPrecision lib_caTemplate, lib_caKey, ''PEM:ca'')
   \<and> clock lib_env (length (trace (demo_world None None)) + 2) = 1500000000
   \<and> NotBefore (atSecondPrecision lib_caTemplate) = 1000000000
   \<and> 365 * day = 31536000000000000
   \<and> NotAfter (atSecondPrecision lib_caTemplate) = 31536001000000000"
  by (simp add: generateCA_def effect_defs time_Now_def Let_def lib_env_def demo_env_def
        demo_world_def lib_create_def lib_parse_def lib_caTemplate_def lib_caKey_def
        atSecondPrecision_def truncateSecond_def caTemplate_def day_def)





section \<open>Ensure on the reuse path\<close>

lemma Ensure_reuse_unfold:
  assumes "Secrets_Get e (Namespace cfg) (SecretName cfg) w = (Inr existing, w1)"
    and "\<not> needsRenewal e (time_Now e w1) existing (RenewalThreshold cfg)"
  shows "Ensure e cfg w =
     (case writeCertsToDisk e (CertDir cfg)
             (index_Data (Data existing) ''tls.crt'')
             (index_Data (Data existing) ''tls.key'') w1 of
        (Some err, w2) \<Rightarrow> (Some (Errorf ''writing existing certs to disk'' err), w2)
      | (None, w2) \<Rightarrow>
          patchWebhookConfig e (WebhookConfigName cfg) (index_Data (Data existing) ''ca.crt'') w2)"
  using assms by (simp add: Ensure_def)

lemma Ensure_reuse_frame:
  assumes get: "Secrets_Get e (Namespace cfg) (SecretName cfg) w = (Inr existing, w1)"
    and valid: "\<not> needsRenewal e (time_Now e w1) existing (RenewalThreshold cfg)"
    and run: "Ensure e cfg w = (r, w')"
  shows "secrets w' = secrets w
       \<and> (\<exists>d. trace w' = trace w @ GetSecret (Namespace cfg) (SecretName cfg) # d
               \<and> filter is_secret_write d = [])"
proof -
  let ?crt = "index_Data (Data existing) ''tls.crt''"
  let ?key = "index_Data (Data existing) ''tls.key''"
  let ?ca = "index_Data (Data existing) ''ca.crt''"
  note w1 = Secrets_Get_frame [OF get]
  obtain r2 w2 where disk: "writeCertsToDisk e (CertDir cfg) ?crt ?key w1 = (r2, w2)"
    by (cases "writeCertsToDisk e (CertDir cfg) ?crt ?key w1") auto
  note f2 = writeCertsToDisk_frame [OF disk]
  from f2 obtain d2 where d2: "trace w2 = trace w1 @ d2" "filter is_secret_write d2 = []"
    by blast
  show ?thesis
  proof (cases r2)
    case (Some err)
    with run disk have "w' = w2"
      by (simp add: Ensure_reuse_unfold [OF get valid])
    with f2 d2 w1 show ?thesis
      by simp
  next
    case None
    with run disk have "patchWebhookConfig e (WebhookConfigName cfg) ?ca w2 = (r, w')"
      by (simp add: Ensure_reuse_unfold [OF get valid])
    from patchWebhookConfig_frame [OF this] obtain d3
      where "secrets w' = secrets w2" "trace w' = trace w2 @ d3" "filter is_secret_write d3 = []"
      by blast
    with d2 f2 w1 have "secrets w' = secrets w
        \<and> trace w' = trace w @ GetSecret (Namespace cfg) (SecretName cfg) # (d2 @ d3)
        \<and> filter is_secret_write (d2 @ d3) = []"
      by simp
    then show ?thesis
      by blast
  qed
qed




text \<open>
  Claim C10.  On the reuse path the calls of \<^verbatim>\<open>Ensure\<close> are the Get of the Trust Record
  followed by calls none of which creates or updates a Secret; the Secrets of the
  cluster are unchanged.
\<close>

theorem Ensure_reuse_reads_only:
  assumes "Secrets_Get e (Namespace cfg) (SecretName cfg) w = (Inr existing, w1)"
    and "\<not> needsRenewal e (time_Now e w1) existing (RenewalThreshold cfg)"
    and "Ensure e cfg w = (r, w')"
  shows "(\<exists>d. trace w' = trace w @ GetSecret (Namespace cfg) (SecretName cfg) # d
             \<and> filter is_secret_write d = [])
       \<and> filter is_secret_write (drop (length (trace w)) (trace w')) = []
       \<and> secrets w' = secrets w"
proof -
  from Ensure_reuse_frame [OF assms] obtain d
    where d: "trace w' = trace w @ GetSecret (Namespace cfg) (SecretName cfg) # d"
             "filter is_secret_write d = []"
      and same: "secrets w' = secrets w"
    by blast
  from d have "filter is_secret_write (drop (length (trace w)) (trace w')) = []"
    by simp
  with d same show ?thesis
    by blast
qed

theorem Ensure_reuse_reads_only_witness:
  "filter is_secret_write
     (trace (snd (Ensure demo_env demo_cfg
        (demo_world (Some (demo_secret ''PEM:leaf'')) (Some (demo_vwc [demo_hook])))))) = []
   \<and> secrets (snd (Ensure demo_env demo_cfg
        (demo_world (Some (demo_secret ''PEM:leaf'')) (Some (demo_vwc [demo_hook])))))
       (''ns'', ''cert'') = Some (demo_secret ''PEM:leaf'')"
proof -
  let ?w = "demo_world (Some (demo_secret ''PEM:leaf'')) (Some (demo_vwc [demo_hook]))"
  obtain w1 where get:
    "Secrets_Get demo_env (Namespace demo_cfg) (SecretName demo_cfg) ?w
       = (Inr (demo_secret ''PEM:leaf''), w1)"
    by (simp add: effect_defs demo_defs)
  have valid: "\<not> needsRenewal demo_env (time_Now demo_env w1) (demo_secret ''PEM:leaf'')
                   (RenewalThreshold demo_cfg)"
    by (simp add: package_defs demo_defs)
  obtain r w' where run: "Ensure demo_env demo_cfg ?w = (r, w')"
    by (cases "Ensure demo_env demo_cfg ?w") auto
  have start: "trace ?w = []" "secrets ?w (''ns'', ''cert'') = Some (demo_secret ''PEM:leaf'')"
    by (simp_all add: demo_world_def)
  from Ensure_reuse_reads_only [OF get valid run] start
  have "filter is_secret_write (trace w') = []
      \<and> secrets w' (''ns'', ''cert'') = Some (demo_secret ''PEM:leaf'')"
    by simp
  with run show ?thesis
    by simp
qed

section \<open>Ensure on the generation path\<close>

lemma Ensure_generate_persist:
  assumes ca: "generateCA e (CertValidity cfg) w1 = (Inr (caCert, caKey, caPEM), w2)"
    and leaf: "generateServerCert e caCert caKey dnsNames (CertValidity cfg) w2
                 = (Inr (serverCertPEM, serverKeyPEM), w3)"
    and run: "Ensure_generate e cfg dnsNames existing w1 = (r, w')"
    and written: "written =
           (if Name existing \<noteq> []
            then (trustRecord cfg caPEM serverCertPEM serverKeyPEM)
                   \<lparr>ResourceVersion := ResourceVersion existing\<rparr>
            else trustRecord cfg caPEM serverCertPEM serverKeyPEM)"
    and persisting: "persisting =
           (if Name existing \<noteq> [] then UpdateSecret (Namespace cfg) written
            else CreateSecret (Namespace cfg) written)"
  shows "(\<exists>d. trace w' = trace w1 @ d \<and> filter is_secret_write d = [persisting])
       \<and> (r = None \<longrightarrow> secrets w' (Namespace cfg, SecretName cfg) = Some written)"
proof -
  from generateCA_frame [OF ca] obtain d1
    where d1: "w2 = w1\<lparr>trace := trace w1 @ d1\<rparr>" "filter is_secret_write d1 = []"
    by blast
  from generateServerCert_frame [OF leaf] obtain d2
    where d2: "w3 = w2\<lparr>trace := trace w2 @ d2\<rparr>" "filter is_secret_write d2 = []"
    by blast
  from d1 d2 have t3: "trace w3 = trace w1 @ d1 @ d2"
    by simp
  have name_written: "Name written = SecretName cfg"
    by (simp add: written trustRecord_def)
  have call_write: "is_secret_write persisting"
    by (simp add: persisting)
  obtain r3 w4 where persist:
    "(if Name existing \<noteq> [] then Secrets_Update e (Namespace cfg) written w3
      else Secrets_Create e (Namespace cfg) written w3) = (r3, w4)"
    by (cases "if Name existing \<noteq> [] then Secrets_Update e (Namespace cfg) written w3
      else Secrets_Create e (Namespace cfg) written w3") auto
  then have t4: "trace w4 = trace w3 @ [persisting]"
    unfolding persisting
    by (auto split: if_splits dest: Secrets_Update_frame Secrets_Create_frame)
  from persist name_written
  have stored: "r3 = None \<Longrightarrow> secrets w4 (Namespace cfg, SecretName cfg) = Some written"
    by (auto split: if_splits dest: Secrets_Update_ok Secrets_Create_ok)
  have unfold: "Ensure_generate e cfg dnsNames existing w1 =
     (case r3 of
        Some err \<Rightarrow> (Some (Errorf (if Name existing \<noteq> [] then ''updating secret''
                                    else ''creating secret'') err), w4)
      | None \<Rightarrow>
         (case writeCertsToDisk e (CertDir cfg) serverCertPEM serverKeyPEM w4 of
            (Some err, w5) \<Rightarrow> (Some (Errorf ''writing certs to disk'' err), w5)
          | (None, w5) \<Rightarrow> patchWebhookConfig e (WebhookConfigName cfg) caPEM w5))"
    using ca leaf persist
    by (auto simp: Ensure_generate_def trustRecord_def SecretTypeTLS_def written Let_def
             split: option.splits if_splits)
  obtain r5 w5 where disk:
    "writeCertsToDisk e (CertDir cfg) serverCertPEM serverKeyPEM w4 = (r5, w5)"
    by (cases "writeCertsToDisk e (CertDir cfg) serverCertPEM serverKeyPEM w4") auto
  from writeCertsToDisk_frame [OF disk] obtain d5
    where d5: "trace w5 = trace w4 @ d5" "filter is_secret_write d5 = []" "secrets w5 = secrets w4"
    by blast
  show ?thesis
  proof (cases r3)
    case (Some err)
    with run unfold have "w' = w4" "r \<noteq> None"
      by auto
    with t4 t3 d1 d2 call_write
    have "trace w' = trace w1 @ (d1 @ d2 @ [persisting])
        \<and> filter is_secret_write (d1 @ d2 @ [persisting]) = [persisting]
        \<and> r \<noteq> None"
      by simp
    then show ?thesis
      by blast
  next
    case None
    note r3 = this
    show ?thesis
    proof (cases r5)
      case (Some err)
      with run unfold r3 disk have "w' = w5" "r \<noteq> None"
        by auto
      with t4 t3 d1 d2 d5 call_write
      have "trace w' = trace w1 @ (d1 @ d2 @ [persisting] @ d5)
          \<and> filter is_secret_write (d1 @ d2 @ [persisting] @ d5) = [persisting]
          \<and> r \<noteq> None"
        by simp
      then show ?thesis
        by blast
    next
      case None
      with run unfold r3 disk
      have "patchWebhookConfig e (WebhookConfigName cfg) caPEM w5 = (r, w')"
        by simp
      from patchWebhookConfig_frame [OF this] obtain d6
        where "trace w' = trace w5 @ d6" "filter is_secret_write d6 = []" "secrets w' = secrets w5"
        by blast
      with t4 t3 d1 d2 d5 call_write stored [OF r3]
      have "trace w' = trace w1 @ (d1 @ d2 @ [persisting] @ d5 @ d6)
          \<and> filter is_secret_write (d1 @ d2 @ [persisting] @ d5 @ d6) = [persisting]
          \<and> secrets w' (Namespace cfg, SecretName cfg) = Some written"
        by simp
      then show ?thesis
        by blast
    qed
  qed
qed

text \<open>
  Claim C7.  When \<^verbatim>\<open>Ensure\<close> regenerates (the record needs renewal, or the Get answered
  not-found) and both certificates are generated, the one write to the Trust Record in
  the whole call is: an update of the new record carrying the version token of the
  existing record, when a record of the configured name was found; a create of the new
  record, with no version token, when none was found.  When the call succeeds the
  record written is the one stored.
\<close>

theorem Ensure_upsert:
  assumes get: "Secrets_Get e (Namespace cfg) (SecretName cfg) w = (g, w1)"
    and regen: "case g of
                  Inr existing \<Rightarrow> needsRenewal e (time_Now e w1) existing (RenewalThreshold cfg)
                | Inl err \<Rightarrow> IsNotFound err"
    and ca: "generateCA e (CertValidity cfg) w1 = (Inr (caCert, caKey, caPEM), w2)"
    and leaf: "generateServerCert e caCert caKey
                 (dnsNamesForService (ServiceName cfg) (Namespace cfg)) (CertValidity cfg) w2
                 = (Inr (serverCertPEM, serverKeyPEM), w3)"
    and run: "Ensure e cfg w = (r, w')"
  shows "(\<forall>existing.
            g = Inr existing \<and> Name existing = SecretName cfg \<and> SecretName cfg \<noteq> [] \<longrightarrow>
            filter is_secret_write (drop (length (trace w)) (trace w'))
              = [UpdateSecret (Namespace cfg)
                   ((trustRecord cfg caPEM serverCertPEM serverKeyPEM)
                      \<lparr>ResourceVersion := ResourceVersion existing\<rparr>)]
          \<and> (r = None \<longrightarrow> secrets w' (Namespace cfg, SecretName cfg)
                = Some ((trustRecord cfg caPEM serverCertPEM serverKeyPEM)
                          \<lparr>ResourceVersion := ResourceVersion existing\<rparr>)))
       \<and> (\<forall>err.
            g = Inl err \<longrightarrow>
            filter is_secret_write (drop (length (trace w)) (trace w'))
              = [CreateSecret (Namespace cfg) (trustRecord cfg caPEM serverCertPEM serverKeyPEM)]
          \<and> ResourceVersion (trustRecord cfg caPEM serverCertPEM serverKeyPEM) = []
          \<and> (r = None \<longrightarrow> secrets w' (Namespace cfg, SecretName cfg)
                = Some (trustRecord cfg caPEM serverCertPEM serverKeyPEM)))"
proof (intro conjI allI impI)
  fix existing
  assume found: "g = Inr existing \<and> Name existing = SecretName cfg \<and> SecretName cfg \<noteq> []"
  with get regen run
  have gen: "Ensure_generate e cfg (dnsNamesForService (ServiceName cfg) (Namespace cfg))
               existing w1 = (r, w')"
    by (simp add: Ensure_def)
  from found have named: "Name existing \<noteq> []"
    by simp
  from Ensure_generate_persist [OF ca leaf gen refl refl] named
  obtain d where d: "trace w' = trace w1 @ d"
      "filter is_secret_write d
         = [UpdateSecret (Namespace cfg)
              ((trustRecord cfg caPEM serverCertPEM serverKeyPEM)
                 \<lparr>ResourceVersion := ResourceVersion existing\<rparr>)]"
    and stored: "r = None \<longrightarrow> secrets w' (Namespace cfg, SecretName cfg)
          = Some ((trustRecord cfg caPEM serverCertPEM serverKeyPEM)
                    \<lparr>ResourceVersion := ResourceVersion existing\<rparr>)"
    by auto
  from d Secrets_Get_frame [OF get]
  show "filter is_secret_write (drop (length (trace w)) (trace w'))
          = [UpdateSecret (Namespace cfg)
               ((trustRecord cfg caPEM serverCertPEM serverKeyPEM)
                  \<lparr>ResourceVersion := ResourceVersion existing\<rparr>)]"
    by simp
  assume "r = None"
  with stored show "secrets w' (Namespace cfg, SecretName cfg)
          = Some ((trustRecord cfg caPEM serverCertPEM serverKeyPEM)
                    \<lparr>ResourceVersion := ResourceVersion existing\<rparr>)"
    by simp
next
  fix err
  assume absent: "g = Inl err"
  with get regen run
  have gen: "Ensure_generate e cfg (dnsNamesForService (ServiceName cfg) (Namespace cfg))
               zeroSecret w1 = (r, w')"
    by (simp add: Ensure_def)
  have unnamed: "Name zeroSecret = []"
    by (simp add: zeroSecret_def)
  from Ensure_generate_persist [OF ca leaf gen refl refl] unnamed
  obtain d where d: "trace w' = trace w1 @ d"
      "filter is_secret_write d
         = [CreateSecret (Namespace cfg) (trustRecord cfg caPEM serverCertPEM serverKeyPEM)]"
    and stored: "r = None \<longrightarrow> secrets w' (Namespace cfg, SecretName cfg)
          = Some (trustRecord cfg caPEM serverCertPEM serverKeyPEM)"
    by auto
  from d Secrets_Get_frame [OF get]
  show "filter is_secret_write (drop (length (trace w)) (trace w'))
          = [CreateSecret (Namespace cfg) (trustRecord cfg caPEM serverCertPEM serverKeyPEM)]"
    by simp
  show "ResourceVersion (trustRecord cfg caPEM serverCertPEM serverKeyPEM) = []"
    by (simp add: trustRecord_def)
  assume "r = None"
  with stored show "secrets w' (Namespace cfg, SecretName cfg)
          = Some (trustRecord cfg caPEM serverCertPEM serverKeyPEM)"
    by simp
qed

theorem Ensure_upsert_witness:
  "filter is_secret_write
     (trace (snd (Ensure demo_env demo_cfg
        (demo_world (Some (demo_secret ''PEM:stale'')) (Some (demo_vwc [demo_hook]))))))
     = [UpdateSecret ''ns''
          ((trustRecord demo_cfg ''PEM:webhook-ca'' ''PEM:svc.ns.svc'' ''PEM:key'')
             \<lparr>ResourceVersion := ''7''\<rparr>)]
   \<and> filter is_secret_write
       (trace (snd (Ensure demo_env demo_cfg (demo_world None (Some (demo_vwc [demo_hook]))))))
     = [CreateSecret ''ns'' (trustRecord demo_cfg ''PEM:webhook-ca'' ''PEM:svc.ns.svc'' ''PEM:key'')]"
proof -
  let ?dns = "dnsNamesForService (ServiceName demo_cfg) (Namespace demo_cfg)"
  let ?rec = "trustRecord demo_cfg ''PEM:webhook-ca'' ''PEM:svc.ns.svc'' ''PEM:key''"
  have renewed:
    "filter is_secret_write (trace (snd (Ensure demo_env demo_cfg
        (demo_world (Some (demo_secret ''PEM:stale'')) (Some (demo_vwc [demo_hook]))))))
     = [UpdateSecret ''ns'' (?rec\<lparr>ResourceVersion := ''7''\<rparr>)]"
  proof -
    let ?w = "demo_world (Some (demo_secret ''PEM:stale'')) (Some (demo_vwc [demo_hook]))"
    obtain w1 where get:
      "Secrets_Get demo_env (Namespace demo_cfg) (SecretName demo_cfg) ?w
         = (Inr (demo_secret ''PEM:stale''), w1)"
      by (simp add: effect_defs demo_defs)
    have regen: "case Inr (demo_secret ''PEM:stale'') of
                   Inr existing \<Rightarrow> needsRenewal demo_env (time_Now demo_env w1) existing
                                     (RenewalThreshold demo_cfg)
                 | Inl err \<Rightarrow> IsNotFound err"
      by (simp add: package_defs demo_defs)
    obtain caCert caKey w2 where ca:
      "generateCA demo_env (CertValidity demo_cfg) w1 = (Inr (caCert, caKey, ''PEM:webhook-ca''), w2)"
      by (simp add: package_defs effect_defs demo_defs)
    obtain w3 where leaf:
      "generateServerCert demo_env caCert caKey ?dns (CertValidity demo_cfg) w2
         = (Inr (''PEM:svc.ns.svc'', ''PEM:key''), w3)"
      by (simp add: package_defs effect_defs demo_defs)
    obtain r w' where run: "Ensure demo_env demo_cfg ?w = (r, w')"
      by (cases "Ensure demo_env demo_cfg ?w") auto
    have same: "Name (demo_secret ''PEM:stale'') = SecretName demo_cfg" "SecretName demo_cfg \<noteq> []"
      by (simp_all add: demo_defs)
    from Ensure_upsert [OF get regen ca leaf run] same
    have "filter is_secret_write (drop (length (trace ?w)) (trace w'))
            = [UpdateSecret (Namespace demo_cfg)
                 (?rec\<lparr>ResourceVersion := ResourceVersion (demo_secret ''PEM:stale'')\<rparr>)]"
      by blast
    with run show ?thesis
      by (simp add: demo_world_def demo_cfg_def demo_secret_def)
  qed
  have created:
    "filter is_secret_write (trace (snd (Ensure demo_env demo_cfg
        (demo_world None (Some (demo_vwc [demo_hook]))))))
     = [CreateSecret ''ns'' ?rec]"
  proof -
    let ?w = "demo_world None (Some (demo_vwc [demo_hook]))"
    obtain w1 where get:
      "Secrets_Get demo_env (Namespace demo_cfg) (SecretName demo_cfg) ?w
         = (Inl (StatusError StatusReasonNotFound), w1)"
      by (simp add: effect_defs demo_defs)
    have regen: "case Inl (StatusError StatusReasonNotFound) of
                   Inr existing \<Rightarrow> needsRenewal demo_env (time_Now demo_env w1) existing
                                     (RenewalThreshold demo_cfg)
                 | Inl err \<Rightarrow> IsNotFound err"
      by simp
    obtain caCert caKey w2 where ca:
      "generateCA demo_env (CertValidity demo_cfg) w1 = (Inr (caCert, caKey, ''PEM:webhook-ca''), w2)"
      by (simp add: package_defs effect_defs demo_defs)
    obtain w3 where leaf:
      "generateServerCert demo_env caCert caKey ?dns (CertValidity demo_cfg) w2
         = (Inr (''PEM:svc.ns.svc'', ''PEM:key''), w3)"
      by (simp add: package_defs effect_defs demo_defs)
    obtain r w' where run: "Ensure demo_env demo_cfg ?w = (r, w')"
      by (cases "Ensure demo_env demo_cfg ?w") auto
    from Ensure_upsert [OF get regen ca leaf run]
    have "filter is_secret_write (drop (length (trace ?w)) (trace w'))
            = [CreateSecret (Namespace demo_cfg) ?rec]"
      by blast
    with run show ?thesis
      by (simp add: demo_world_def demo_cfg_def)
  qed
  from renewed created show ?thesis
    by simp
qed

end
